theory Spec2Isabelle
  imports Complex_Main "HOL-Library.AList" "HOL-Library.Char_ord" "HOL-Library.List_Lexorder"
begin

section \<open>Data model of the weather service\<close>

text \<open>
  The interfaces of \<^verbatim>\<open>services/weather.ts\<close> and of the advisory service, as records.
  A TypeScript \<^verbatim>\<open>number\<close> that comes out of the provider's JSON is a finite double; it
  is modelled by the \<^typ>\<open>real\<close> it denotes. The sums, products and quotients of the daily
  aggregation and the rain total of the irrigation advice are rounded after each operation,
  as doubles are (section Double precision); the indices of \<open>calculateAgriculturalInsights\<close>
  and \<open>calculateGrowingDegreeDays\<close> are written with exact arithmetic. The two values the
  code itself can make that are not finite (\<^verbatim>\<open>Math.min()\<close> of no arguments, and
  \<^verbatim>\<open>undefined - undefined\<close>) are written out where they arise. An optional field
  \<^verbatim>\<open>data?\<close> is an \<^typ>\<open>'a option\<close>.

  Fields shared by the current conditions and by a forecast sample (temperature, humidity,
  pressure, windSpeed, weather) live in one base record, so that the analysis functions,
  which the source types as \<^verbatim>\<open>any\<close>, read them from either. Where two interfaces use
  one field name at different types, the later one carries a prefix.
\<close>

record Weather =
  main :: string
  description :: string
  icon :: string

record WeatherBrief =
  brief_main :: string
  brief_description :: string

record Location =
  name :: string
  lat :: real
  lon :: real

record CurrentLocation = Location +
  country :: string

record Conditions =
  temperature :: real
  humidity :: real
  pressure :: real
  windSpeed :: real
  weather :: Weather

record Current = Conditions +
  feelsLike :: real
  windDirection :: real
  visibility :: real
  uvIndex :: real

record CurrentWeather =
  cw_location :: CurrentLocation
  current :: Current
  cw_timestamp :: string

text \<open>One entry of \<^verbatim>\<open>WeatherForecast.forecast\<close> and of \<^verbatim>\<open>HistoricalWeather.data\<close>.\<close>

record Measurement = Conditions +
  date :: string
  datetime :: string
  precipitation :: real

record WeatherForecast =
  wf_location :: Location
  wf_forecast :: "Measurement list"
  wf_timestamp :: string

record Period =
  period_start :: string
  period_end :: string

record HistoricalWeather =
  hw_location :: Location
  hw_data :: "Measurement list"
  hw_period :: Period
  hw_timestamp :: string

record TemperatureSummary =
  tmin :: real
  tmax :: real
  average :: real

text \<open>
  One daily entry. \<^verbatim>\<open>DailyForecast.forecast\<close> carries a weather with an icon
  (\<^typ>\<open>Weather\<close>), \<^verbatim>\<open>HistoricalDailyWeather.data\<close> one without (\<^typ>\<open>WeatherBrief\<close>).
\<close>

record 'w DailyEntry =
  day_date :: string
  day_temperature :: TemperatureSummary
  day_humidity :: real
  day_pressure :: real
  day_windSpeed :: real
  day_precipitation :: real
  day_weather :: 'w

record DailyForecast =
  df_location :: Location
  df_forecast :: "Weather DailyEntry list"
  df_timestamp :: string

record HistoricalDailyWeather =
  hd_location :: Location
  hd_data :: "WeatherBrief DailyEntry list"
  hd_period :: Period
  hd_timestamp :: string

text \<open>
  The envelopes. The advisory service's frost and irrigation entry points return
  \<^verbatim>\<open>{success, data?, error?}\<close>; \<^verbatim>\<open>WeatherResponse<T>\<close> and \<^verbatim>\<open>AdvisoryResponse\<close> add
  a timestamp.
\<close>

record 'a Result =
  success :: bool
  data :: "'a option"
  error :: "string option"

record 'a WeatherResponse = "'a Result" +
  timestamp :: string

record AgriculturalInsights =
  growingDegreeDays :: real
  evapotranspiration :: real
  soilTemperature :: real
  frostRisk :: bool
  irrigationRecommendation :: string
  sprayingWindow :: bool
  heatStress :: bool

text \<open>
  What a \<^verbatim>\<open>throw\<close> carries to the enclosing \<^verbatim>\<open>catch\<close>. Both kinds are
  \<^verbatim>\<open>instanceof Error\<close>, so every handler of the source reports its \<^verbatim>\<open>message\<close>.
\<close>

datatype exn = Error string | TypeError string

fun exn_message :: "exn \<Rightarrow> string" where
  "exn_message (Error m) = m"
| "exn_message (TypeError m) = m"

text \<open>
  \<^verbatim>\<open>a || b\<close> on numbers: \<open>0\<close> is falsy (so is \<^verbatim>\<open>NaN\<close>, which no field of the model holds).
\<close>

definition js_or :: "real \<Rightarrow> real \<Rightarrow> real" where
  "js_or a b = (if a = 0 then b else a)"

section \<open>Double precision\<close>

text \<open>
  The source adds, multiplies and divides numbers as IEEE 754 binary64 values: each
  operation returns the double nearest to its exact result, a tie going to the even
  significand. A double is modelled by the real it denotes. \<open>exponent x\<close> is
  \<open>\<lfloor>log\<^sub>2 \<bar>x\<bar>\<rfloor>\<close>, not below \<open>-1022\<close>: below the smallest normal binade the doubles keep
  its spacing. \<open>fl x\<close> rounds \<open>x\<close> to the nearest multiple of \<open>2\<close> to the power
  \<open>exponent x - 52\<close>. The search \<open>exponent'\<close> has fuel for every binade of the doubles.
  Overflow to \<^verbatim>\<open>Infinity\<close>, from \<open>2\<close> to the power 1024 on, is left out: no weather value
  comes near it. Comparisons, \<^verbatim>\<open>Math.min\<close> and \<^verbatim>\<open>Math.max\<close> are exact on doubles.
\<close>

definition pow2 :: "int \<Rightarrow> real" where
  "pow2 e = (if 0 \<le> e then 2 ^ nat e else 1 / 2 ^ nat (- e))"

text \<open>The nearest integer, a tie going to the even one.\<close>

definition round_even :: "real \<Rightarrow> int" where
  "round_even r =
     (let f = \<lfloor>r\<rfloor>; d = r - of_int f
      in if d < 1 / 2 then f else if d > 1 / 2 then f + 1 else if even f then f else f + 1)"

fun exponent' :: "nat \<Rightarrow> real \<Rightarrow> int \<Rightarrow> int" where
  "exponent' 0 m e = e"
| "exponent' (Suc n) m e =
     (if 2 \<le> m then exponent' n (m / 2) (e + 1)
      else if m < 1 \<and> - 1022 < e then exponent' n (m * 2) (e - 1)
      else e)"

definition exponent :: "real \<Rightarrow> int" where
  "exponent x = exponent' 2100 \<bar>x\<bar> 0"

definition fl :: "real \<Rightarrow> real" where
  "fl x = (let q = pow2 (exponent x - 52) in of_int (round_even (x / q)) * q)"

text \<open>\<^verbatim>\<open>a + b\<close>, \<^verbatim>\<open>a * b\<close> and \<^verbatim>\<open>a / b\<close> on doubles.\<close>

definition fadd :: "real \<Rightarrow> real \<Rightarrow> real" where
  "fadd a b = fl (a + b)"

definition fmul :: "real \<Rightarrow> real \<Rightarrow> real" where
  "fmul a b = fl (a * b)"

definition fdiv :: "real \<Rightarrow> real \<Rightarrow> real" where
  "fdiv a b = fl (a / b)"

text \<open>The reals that are doubles: rounding leaves them as they are.\<close>

definition is_double :: "real \<Rightarrow> bool" where
  "is_double x \<longleftrightarrow> fl x = x"

section \<open>Agronomic indices\<close>


text \<open>
  The argument of \<^verbatim>\<open>Math.abs\<close> in the evapotranspiration formula:
  \<^verbatim>\<open>forecast.forecast[0]?.temperature.max - forecast.forecast[0]?.temperature.min || 10\<close>.
  Subtraction binds tighter than \<^verbatim>\<open>||\<close>. With no first entry both operands are
  \<^verbatim>\<open>undefined\<close>, their difference is \<^verbatim>\<open>NaN\<close>, which is falsy; a difference of \<open>0\<close> is
  falsy as well.
\<close>

definition temperatureRange :: "'w DailyEntry list \<Rightarrow> real" where
  "temperatureRange days =
     (case days of
        [] \<Rightarrow> 10
      | day0 # _ \<Rightarrow> js_or (tmax (day_temperature day0) - tmin (day_temperature day0)) 10)"

definition calculateAgriculturalInsights :: "CurrentWeather \<Rightarrow> DailyForecast \<Rightarrow> AgriculturalInsights" where
  "calculateAgriculturalInsights cur forecast =
     (let temp = temperature (current cur);
          humidity = humidity (current cur);
          windSpeed = windSpeed (current cur);
          baseTemp = 10;
          growingDegreeDays = max 0 (temp - baseTemp);
          evapotranspiration =
            max 0 ((0.0023 * (temp + 17.8) * sqrt \<bar>temperatureRange (df_forecast forecast)\<bar>
                    * (temp + 273.16) / 273.16) * 2.45);
          soilTemperature = temp * 0.85;
          frostRisk = list_ex (\<lambda>day. tmin (day_temperature day) < 2) (take 3 (df_forecast forecast));
          irrigationRecommendation =
            (if humidity < 40 \<and> temp > 25 then ''High need''
             else if humidity < 60 \<and> temp > 20 then ''Moderate need''
             else if humidity > 80 then ''Low need''
             else ''Monitor'');
          sprayingWindow =
            (windSpeed < 15 \<and> \<not> list_ex (\<lambda>day. day_precipitation day > 0) (take 1 (df_forecast forecast)));
          heatStress = (temp > 35 \<or> (temp > 30 \<and> humidity > 70))
      in \<lparr>growingDegreeDays = growingDegreeDays,
          evapotranspiration = evapotranspiration,
          soilTemperature = soilTemperature,
          frostRisk = frostRisk,
          irrigationRecommendation = irrigationRecommendation,
          sprayingWindow = sprayingWindow,
          heatStress = heatStress\<rparr>)"



section \<open>Daily aggregation\<close>

text \<open>
  \<^verbatim>\<open>dailyMap\<close> is a JavaScript \<^verbatim>\<open>Map<string, any[]>\<close>, which keeps its keys in the order
  of their first insertion: an association list. \<^verbatim>\<open>Map.set\<close> on a new key appends
  (\<^const>\<open>AList.update\<close>), and \<^verbatim>\<open>dailyMap.get(date)!.push(item)\<close> extends the array stored
  under the key in place (\<^const>\<open>AList.map_entry\<close>); the key is present there because of the
  \<^verbatim>\<open>set\<close> just before.
\<close>

type_synonym dailyMap = "(string \<times> Measurement list) list"

definition has :: "dailyMap \<Rightarrow> string \<Rightarrow> bool" where
  "has dailyMap k = (map_of dailyMap k \<noteq> None)"

text \<open>The body of the \<^verbatim>\<open>forEach\<close> callback.\<close>

definition pushItem :: "Measurement \<Rightarrow> dailyMap \<Rightarrow> dailyMap" where
  "pushItem item dailyMap =
     (let date = date item;
          dailyMap1 = (if \<not> has dailyMap date then AList.update date [] dailyMap else dailyMap)
      in AList.map_entry date (\<lambda>items. items @ [item]) dailyMap1)"

text \<open>The \<^verbatim>\<open>forEach\<close> loop over the samples, from the empty map.\<close>

definition buildDailyMap :: "Measurement list \<Rightarrow> dailyMap" where
  "buildDailyMap samples = fold pushItem samples []"

text \<open>
  \<^verbatim>\<open>Math.round\<close> returns the integer nearest to the value of its argument, a half going
  towards \<open>+\<infinity>\<close>; it is exact.
\<close>

definition Math_round :: "real \<Rightarrow> real" where
  "Math_round x = of_int \<lfloor>x + 1 / 2\<rfloor>"

text \<open>
  The callback that turns one entry \<^verbatim>\<open>[date, items]\<close> of the map (here \<open>(key, items)\<close>,
  \<open>date\<close> being the field of a sample) into a daily entry; the
  two aggregation functions of the source have the same text but for the weather, with or
  without the icon, which is the parameter \<open>pick\<close>. The sums run from 0 through the items
  in their order, each partial sum a double. On an empty \<^verbatim>\<open>items\<close> the reductions
  would not throw, but \<^verbatim>\<open>items[Math.floor(items.length / 2)]\<close> is \<^verbatim>\<open>undefined\<close> and reading
  its \<^verbatim>\<open>weather\<close> throws a \<^verbatim>\<open>TypeError\<close>, so no entry is made.
\<close>

definition aggregateDay :: "(Weather \<Rightarrow> 'w) \<Rightarrow> string \<times> Measurement list \<Rightarrow> exn + 'w DailyEntry" where
  "aggregateDay pick entry =
     (case entry of (key, items) \<Rightarrow>
        if items = [] then Inl (TypeError ''Cannot read properties of undefined (reading weather)'')
        else
          (let temperatures = map temperature items;
               precipitationSum = foldl (\<lambda>sum item. fadd sum (precipitation item)) 0 items;
               avgHumidity =
                 fdiv (foldl (\<lambda>sum item. fadd sum (humidity item)) 0 items) (real (length items));
               avgPressure =
                 fdiv (foldl (\<lambda>sum item. fadd sum (pressure item)) 0 items) (real (length items));
               avgWindSpeed =
                 fdiv (foldl (\<lambda>sum item. fadd sum (windSpeed item)) 0 items) (real (length items))
           in Inr \<lparr>day_date = key,
                   day_temperature =
                     \<lparr>tmin = Min (set temperatures),
                      tmax = Max (set temperatures),
                      average =
                        fdiv (foldl (\<lambda>sum temp. fadd sum temp) 0 temperatures)
                          (real (length temperatures))\<rparr>,
                   day_humidity = Math_round avgHumidity,
                   day_pressure = Math_round avgPressure,
                   day_windSpeed = fdiv (Math_round (fmul avgWindSpeed 100)) 100,
                   day_precipitation = fdiv (Math_round (fmul precipitationSum 100)) 100,
                   day_weather = pick (weather (items ! (length items div 2)))\<rparr>))"

definition withIcon :: "Weather \<Rightarrow> Weather" where
  "withIcon w = \<lparr>main = main w, description = description w, icon = icon w\<rparr>"

definition withoutIcon :: "Weather \<Rightarrow> WeatherBrief" where
  "withoutIcon w = \<lparr>brief_main = main w, brief_description = description w\<rparr>"

text \<open>\<^verbatim>\<open>Array.prototype.map\<close> with a callback that may throw: the first throw ends it.\<close>

fun mapE :: "('a \<Rightarrow> exn + 'b) \<Rightarrow> 'a list \<Rightarrow> exn + 'b list" where
  "mapE f [] = Inr []"
| "mapE f (x # xs) =
     (case f x of
        Inl e \<Rightarrow> Inl e
      | Inr y \<Rightarrow> (case mapE f xs of Inl e \<Rightarrow> Inl e | Inr ys \<Rightarrow> Inr (y # ys)))"

text \<open>
  The \<^verbatim>\<open>try\<close>/\<^verbatim>\<open>catch\<close> of the weather service: a value becomes a success envelope, a
  thrown error a failure envelope with the error's message. \<open>now\<close> is the reading of the
  clock (\<^verbatim>\<open>new Date().toISOString()\<close>); the readings taken within one call are taken
  to be the same.
\<close>

definition respond :: "string \<Rightarrow> exn + 'a \<Rightarrow> 'a WeatherResponse" where
  "respond now r =
     (case r of
        Inr v \<Rightarrow> \<lparr>success = True, data = Some v, error = None, timestamp = now\<rparr>
      | Inl e \<Rightarrow> \<lparr>success = False, data = None, error = Some (exn_message e), timestamp = now\<rparr>)"

text \<open>
  \<^verbatim>\<open>getDailyForecast\<close>. The awaited \<^verbatim>\<open>getHourlyForecast\<close> never rejects (it catches
  every error itself), so its envelope is the input here.
\<close>

definition getDailyForecast :: "string \<Rightarrow> WeatherForecast WeatherResponse \<Rightarrow> DailyForecast WeatherResponse" where
  "getDailyForecast now hourlyResponse =
     respond now
       (case (success hourlyResponse, data hourlyResponse) of
          (True, Some hourlyData) \<Rightarrow>
            (case mapE (aggregateDay withIcon) (buildDailyMap (wf_forecast hourlyData)) of
               Inl e \<Rightarrow> Inl e
             | Inr days \<Rightarrow>
                 Inr \<lparr>df_location = wf_location hourlyData, df_forecast = days, df_timestamp = now\<rparr>)
        | _ \<Rightarrow> Inl (Error ''Failed to fetch hourly forecast for daily aggregation''))"

text \<open>
  \<^verbatim>\<open>getHistoricalDailyWeather\<close>: the same aggregation, then
  \<^verbatim>\<open>.sort((a, b) => a.date.localeCompare(b.date))\<close>. The dates are ISO dates
  (\<^verbatim>\<open>YYYY-MM-DD\<close>), on which the collation is the lexicographic order of the characters;
  the sort is stable.
\<close>

definition getHistoricalDailyWeather ::
  "string \<Rightarrow> HistoricalWeather WeatherResponse \<Rightarrow> HistoricalDailyWeather WeatherResponse" where
  "getHistoricalDailyWeather now historicalResponse =
     respond now
       (case (success historicalResponse, data historicalResponse) of
          (True, Some historicalData) \<Rightarrow>
            (case mapE (aggregateDay withoutIcon) (buildDailyMap (hw_data historicalData)) of
               Inl e \<Rightarrow> Inl e
             | Inr days \<Rightarrow>
                 Inr \<lparr>hd_location = hw_location historicalData,
                      hd_data = sort_key day_date days,
                      hd_period = hw_period historicalData,
                      hd_timestamp = now\<rparr>)
        | _ \<Rightarrow> Inl (Error ''Failed to fetch historical weather for daily aggregation''))"

record AgriculturalWeather =
  aw_current :: CurrentWeather
  aw_forecast :: "WeatherForecast option"
  aw_dailyForecast :: DailyForecast
  aw_insights :: AgriculturalInsights

text \<open>
  \<^verbatim>\<open>getAgriculturalWeather\<close>: the three envelopes joined by \<^verbatim>\<open>Promise.all\<close> are the
  inputs. After the check, \<^verbatim>\<open>calculateAgriculturalInsights(current.data!, ...)\<close> reads
  \<^verbatim>\<open>current.current\<close> first and \<^verbatim>\<open>forecast.forecast\<close> next, and throws on an absent one;
  \<^verbatim>\<open>forecast.data!\<close> is only copied into the result.
\<close>

definition getAgriculturalWeather ::
  "string \<Rightarrow> CurrentWeather WeatherResponse \<Rightarrow> WeatherForecast WeatherResponse
     \<Rightarrow> DailyForecast WeatherResponse \<Rightarrow> AgriculturalWeather WeatherResponse" where
  "getAgriculturalWeather now cur forecast dailyForecast =
     respond now
       (if \<not> success cur \<or> \<not> success forecast \<or> \<not> success dailyForecast
        then Inl (Error ''Failed to fetch complete weather data'')
        else
          (case data cur of
             None \<Rightarrow> Inl (TypeError ''Cannot read properties of undefined (reading current)'')
           | Some c \<Rightarrow>
               (case data dailyForecast of
                  None \<Rightarrow> Inl (TypeError ''Cannot read properties of undefined (reading forecast)'')
                | Some d \<Rightarrow>
                    Inr \<lparr>aw_current = c, aw_forecast = data forecast, aw_dailyForecast = d,
                         aw_insights = calculateAgriculturalInsights c d\<rparr>)))"

section \<open>The advisory service\<close>

text \<open>
  The string-literal unions of the interfaces are datatypes. A template literal is a list
  of pieces: literal text and the numbers put into it, whose rendering as text
  (\<^verbatim>\<open>String(x)\<close>, \<^verbatim>\<open>x.toFixed(1)\<close>) is kept symbolic. The literals of the source hold a
  degree sign and pictographs; these are left out of the strings below.
\<close>

datatype FrostRisk = Frost_none | Frost_low | Frost_moderate | Frost_high | Frost_critical

datatype Recommendation = Immediate | Within_24h | Within_48h | Skip | Monitor

datatype HeatRisk = Heat_none | Heat_low | Heat_moderate | Heat_high | Heat_extreme

datatype Priority = Priority_low | Priority_medium | Priority_high | Priority_urgent

datatype piece = Lit string | Shown real | Fixed1 real

type_synonym template = "piece list"

text \<open>A number the code computes: finite, or \<^verbatim>\<open>Infinity\<close> from \<^verbatim>\<open>Math.min()\<close>.\<close>

datatype number = Num real | PosInfinity

fun Math_min :: "real list \<Rightarrow> number" where
  "Math_min [] = PosInfinity"
| "Math_min (x # xs) = Num (Min (set (x # xs)))"

text \<open>\<^verbatim>\<open>a <= b\<close> for such a number and a finite bound.\<close>

fun num_le :: "number \<Rightarrow> real \<Rightarrow> bool" where
  "num_le (Num a) b = (a \<le> b)"
| "num_le PosInfinity b = False"

record FrostAlert =
  frost_risk :: FrostRisk
  frost_message :: string
  frost_action :: string
  frost_timeframe :: string
  frost_temperature :: number

record IrrigationAdvice =
  irr_recommendation :: Recommendation
  irr_message :: string
  irr_reason :: template
  irr_nextCheck :: string
  irr_waterAmount :: string

record SprayingWindow =
  spray_suitable :: bool
  spray_message :: string
  spray_bestTime :: string
  spray_nextOpportunity :: template
  spray_reason :: template

record HeatStressAlert =
  heat_risk :: HeatRisk
  heat_message :: string
  heat_action :: string
  heat_duration :: template
  heat_temperature :: real

record CropAdvisory =
  adv_location :: Location
  adv_frost :: FrostAlert
  adv_irrigation :: IrrigationAdvice
  adv_spraying :: SprayingWindow
  adv_heatStress :: HeatStressAlert
  adv_generalAdvice :: "string list"
  adv_priority :: Priority
  adv_lastUpdated :: string

record OverallAdvice =
  oa_priority :: Priority
  oa_generalAdvice :: "string list"

text \<open>\<^verbatim>\<open>analyzeFrostRisk(currentTemp, forecastData)\<close>; \<^verbatim>\<open>currentTemp\<close> is not read.\<close>

definition analyzeFrostRisk :: "real \<Rightarrow> 'm Measurement_scheme list \<Rightarrow> FrostAlert" where
  "analyzeFrostRisk currentTemp forecastData =
     (let minTemps = map temperature (take 8 forecastData);
          lowestTemp = Math_min minTemps
      in if num_le lowestTemp (- 2) then
           \<lparr>frost_risk = Frost_critical,
            frost_message = ''Severe frost expected - immediate action required'',
            frost_action = ''Cover all sensitive crops, use frost protection methods, move potted plants indoors'',
            frost_timeframe = ''Within next 6-12 hours'',
            frost_temperature = lowestTemp\<rparr>
         else if num_le lowestTemp 0 then
           \<lparr>frost_risk = Frost_high,
            frost_message = ''Hard frost likely - protect vulnerable crops'',
            frost_action = ''Cover young plants, drain irrigation lines, harvest sensitive crops'',
            frost_timeframe = ''Within next 12-24 hours'',
            frost_temperature = lowestTemp\<rparr>
         else if num_le lowestTemp 2 then
           \<lparr>frost_risk = Frost_moderate,
            frost_message = ''Light frost possible - monitor closely'',
            frost_action = ''Prepare frost protection materials, monitor weather updates'',
            frost_timeframe = ''Within next 24-48 hours'',
            frost_temperature = lowestTemp\<rparr>
         else if num_le lowestTemp 5 then
           \<lparr>frost_risk = Frost_low,
            frost_message = ''Cool temperatures ahead - minimal frost risk'',
            frost_action = ''Normal operations, keep frost protection ready'',
            frost_timeframe = ''Next 2-3 days'',
            frost_temperature = lowestTemp\<rparr>
         else
           \<lparr>frost_risk = Frost_none,
            frost_message = ''No frost risk detected'',
            frost_action = ''Continue normal farming activities'',
            frost_timeframe = ''Next 5 days'',
            frost_temperature = lowestTemp\<rparr>)"

definition generateIrrigationAdvice ::
  "'c Conditions_scheme \<Rightarrow> 'm Measurement_scheme list \<Rightarrow> IrrigationAdvice" where
  "generateIrrigationAdvice currentWeather forecastData =
     (let currentTemp = temperature currentWeather;
          currentHumidity = humidity currentWeather;
          rainForecast = take 16 forecastData;
          totalRain = foldl (\<lambda>sum item. fadd sum (js_or (precipitation item) 0)) 0 rainForecast;
          significantRain = (totalRain > 5);
          waterStress = (currentTemp > 25 \<and> currentHumidity < 50);
          highWaterStress = (currentTemp > 30 \<and> currentHumidity < 40);
          extremeWaterStress = (currentTemp > 35 \<and> currentHumidity < 35)
      in if significantRain then
           \<lparr>irr_recommendation = Skip,
            irr_message = ''Skip irrigation - adequate rainfall expected'',
            irr_reason = [Fixed1 totalRain, Lit ''mm rain forecast in next 48 hours''],
            irr_nextCheck = ''Check again after rainfall'',
            irr_waterAmount = ''''\<rparr>
         else if extremeWaterStress then
           \<lparr>irr_recommendation = Immediate,
            irr_message = ''Immediate irrigation required - extreme heat stress conditions'',
            irr_reason = [Lit ''Very high temperature ('', Shown currentTemp,
                          Lit ''C) with low humidity ('', Shown currentHumidity, Lit ''%)''],
            irr_nextCheck = ''Monitor every 6 hours'',
            irr_waterAmount = ''Deep watering recommended - 25-30mm equivalent''\<rparr>
         else if highWaterStress then
           \<lparr>irr_recommendation = Within_24h,
            irr_message = ''Irrigation needed within 24 hours - high stress conditions'',
            irr_reason = [Lit ''High temperature ('', Shown currentTemp,
                          Lit ''C) with low humidity ('', Shown currentHumidity, Lit ''%)''],
            irr_nextCheck = ''Check again in 12 hours'',
            irr_waterAmount = ''Regular watering - 15-20mm equivalent''\<rparr>
         else if waterStress then
           \<lparr>irr_recommendation = Within_48h,
            irr_message = ''Plan irrigation within 48 hours - moderate stress detected'',
            irr_reason = [Lit ''Moderate temperature ('', Shown currentTemp,
                          Lit ''C) with moderate humidity ('', Shown currentHumidity, Lit ''%)''],
            irr_nextCheck = ''Check again in 24 hours'',
            irr_waterAmount = ''Light watering - 10-15mm equivalent''\<rparr>
         else
           \<lparr>irr_recommendation = Monitor,
            irr_message = ''Continue monitoring - current conditions adequate'',
            irr_reason = [Lit ''Acceptable temperature ('', Shown currentTemp,
                          Lit ''C) and humidity ('', Shown currentHumidity, Lit ''%)''],
            irr_nextCheck = ''Check again in 24 hours'',
            irr_waterAmount = ''''\<rparr>)"

text \<open>
  \<^verbatim>\<open>xs.indexOf(x)\<close>: the first position of \<open>x\<close>, or \<open>-1\<close>. The source compares object
  identities; two samples with the same fields are one value here, and the first position
  of a value equal to the first good window is the position of that window, since an
  earlier equal sample would be a good window itself.
\<close>

fun indexOf :: "'a list \<Rightarrow> 'a \<Rightarrow> int" where
  "indexOf [] x = - 1"
| "indexOf (y # ys) x =
     (if y = x then 0 else (let i = indexOf ys x in if i < 0 then - 1 else i + 1))"

text \<open>
  The predicate of \<^verbatim>\<open>goodWindows\<close>, and the filter \<^verbatim>\<open>morningWindows\<close>, whose callback
  takes as \<^verbatim>\<open>index\<close> the position in the array being filtered, which is
  \<^verbatim>\<open>goodWindows\<close>. \<open>hours\<close> is the reading \<^verbatim>\<open>new Date().getHours()\<close>.
\<close>

definition goodWindow :: "'m Measurement_scheme \<Rightarrow> bool" where
  "goodWindow item =
     (windSpeed item < 15 \<and> js_or (precipitation item) 0 = 0
      \<and> temperature item > 10 \<and> temperature item < 30)"

definition morningWindows :: "nat \<Rightarrow> 'a list \<Rightarrow> 'a list" where
  "morningWindows hours goodWindows =
     map snd
       (filter (\<lambda>(index, _). let hour = (hours + index * 3) mod 24 in hour \<ge> 6 \<and> hour \<le> 10)
          (enumerate 0 goodWindows))"

definition analyzeSprayingConditions ::
  "nat \<Rightarrow> 'c Conditions_scheme \<Rightarrow> 'm Measurement_scheme list \<Rightarrow> SprayingWindow" where
  "analyzeSprayingConditions hours currentWeather forecastData =
     (let currentWind = windSpeed currentWeather;
          currentTemp = temperature currentWeather;
          next24h = take 8 forecastData;
          goodWindows = filter goodWindow next24h
      in if currentWind > 20 then
           \<lparr>spray_suitable = False,
            spray_message = ''Spraying not recommended - wind too strong'',
            spray_bestTime = '''',
            spray_nextOpportunity =
              (case goodWindows of
                 nextGoodWindow # _ \<Rightarrow>
                   (let hours = indexOf next24h nextGoodWindow * 3
                    in [Lit ''Next opportunity in '', Shown (of_int hours), Lit '' hours''])
               | [] \<Rightarrow> [Lit ''Check forecast tomorrow'']),
            spray_reason = [Lit ''Current wind speed: '', Shown currentWind, Lit '' km/h (safe limit: <15 km/h)'']\<rparr>
         else if currentTemp > 30 then
           \<lparr>spray_suitable = False,
            spray_message = ''Spraying not recommended - temperature too high'',
            spray_bestTime = '''',
            spray_nextOpportunity = [Lit ''Wait for cooler conditions (early morning/evening)''],
            spray_reason = [Lit ''Current temperature: '', Shown currentTemp, Lit ''C (avoid spraying above 30C)'']\<rparr>
         else if length goodWindows > 0 then
           \<lparr>spray_suitable = True,
            spray_message = ''Good spraying conditions available'',
            spray_bestTime =
              (if length (morningWindows hours goodWindows) > 0
               then ''Early morning (6-10 AM) recommended for optimal results''
               else ''Current conditions suitable - spray when convenient''),
            spray_nextOpportunity = [],
            spray_reason = [Lit ''Low wind ('', Shown currentWind, Lit '' km/h), suitable temperature ('',
                            Shown currentTemp, Lit ''C)'']\<rparr>
         else
           \<lparr>spray_suitable = False,
            spray_message = ''Poor spraying conditions - wait for better weather'',
            spray_bestTime = '''',
            spray_nextOpportunity = [Lit ''Check forecast again in 12 hours''],
            spray_reason = [Lit ''High wind or rain forecast in next 24 hours'']\<rparr>)"

text \<open>\<^verbatim>\<open>assessHeatStress\<close>; the local \<^verbatim>\<open>heatIndex\<close> is computed and never read.\<close>

definition assessHeatStress ::
  "'c Conditions_scheme \<Rightarrow> 'm Measurement_scheme list \<Rightarrow> HeatStressAlert" where
  "assessHeatStress currentWeather forecastData =
     (let currentTemp = temperature currentWeather;
          currentHumidity = humidity currentWeather;
          highTempPeriods = length (filter (\<lambda>item. temperature item > 30) forecastData);
          duration = [Shown (real (highTempPeriods * 3)), Lit '' hours of elevated temperatures expected'']
      in if currentTemp > 40 \<or> (currentTemp > 35 \<and> currentHumidity > 70) then
           \<lparr>heat_risk = Heat_extreme,
            heat_message = ''Extreme heat stress - immediate action required'',
            heat_action = ''Increase irrigation frequency, provide shade, harvest heat-sensitive crops immediately'',
            heat_duration = duration,
            heat_temperature = currentTemp\<rparr>
         else if currentTemp > 35 \<or> (currentTemp > 30 \<and> currentHumidity > 80) then
           \<lparr>heat_risk = Heat_high,
            heat_message = ''High heat stress - crops need protection'',
            heat_action = ''Increase irrigation, apply mulch, avoid field work during peak heat'',
            heat_duration = duration,
            heat_temperature = currentTemp\<rparr>
         else if currentTemp > 30 \<or> (currentTemp > 25 \<and> currentHumidity > 85) then
           \<lparr>heat_risk = Heat_moderate,
            heat_message = ''Moderate heat stress - monitor crops closely'',
            heat_action = ''Ensure adequate water supply, consider morning/evening irrigation'',
            heat_duration = duration,
            heat_temperature = currentTemp\<rparr>
         else if currentTemp > 25 then
           \<lparr>heat_risk = Heat_low,
            heat_message = ''Mild heat stress possible - maintain normal care'',
            heat_action = ''Continue regular irrigation schedule, monitor plant health'',
            heat_duration = duration,
            heat_temperature = currentTemp\<rparr>
         else
           \<lparr>heat_risk = Heat_none,
            heat_message = ''No heat stress detected'',
            heat_action = ''Normal growing conditions - continue standard practices'',
            heat_duration = duration,
            heat_temperature = currentTemp\<rparr>)"

text \<open>
  \<^verbatim>\<open>generateOverallAdvice\<close>: \<^verbatim>\<open>advice.push\<close> appends, so the list is the concatenation
  of what each step pushes.
\<close>

definition generateOverallAdvice ::
  "FrostAlert \<Rightarrow> IrrigationAdvice \<Rightarrow> SprayingWindow \<Rightarrow> HeatStressAlert \<Rightarrow> OverallAdvice" where
  "generateOverallAdvice frost irrigation spraying heatStressAlert =
     (let (priority, advice1) =
            (if frost_risk frost = Frost_critical \<or> heat_risk heatStressAlert = Heat_extreme
                \<or> irr_recommendation irrigation = Immediate
             then (Priority_urgent, [''Urgent action required - check all alerts immediately''])
             else if frost_risk frost = Frost_high \<or> heat_risk heatStressAlert = Heat_high
                \<or> irr_recommendation irrigation = Within_24h
             then (Priority_high, [''High priority - address within 24 hours''])
             else if frost_risk frost = Frost_moderate \<or> heat_risk heatStressAlert = Heat_moderate
                \<or> irr_recommendation irrigation = Within_48h
             then (Priority_medium, [''Medium priority - plan accordingly''])
             else (Priority_low, []));
          advice2 = advice1 @
            (if spray_suitable spraying then [''Good conditions for pesticide/herbicide application''] else []);
          advice3 = advice2 @
            (if irr_recommendation irrigation = Skip then [''Rain expected - save on irrigation costs''] else []);
          advice4 = advice3 @
            (if frost_risk frost = Frost_none \<and> heat_risk heatStressAlert = Heat_none
             then [''Optimal growing conditions - ideal for field work''] else []);
          advice5 = advice4 @ [''Check updates every 12-24 hours for changing conditions'']
      in \<lparr>oa_priority = priority, oa_generalAdvice = advice5\<rparr>)"

text \<open>
  The entry points. The envelopes of the two fetches are the inputs: the weather service's
  methods never reject. \<^verbatim>\<open>x.data!\<close> asserts nothing at run time, and reading a field of
  an absent \<^verbatim>\<open>data\<close> throws a \<^verbatim>\<open>TypeError\<close>, which the \<^verbatim>\<open>catch\<close> turns into a failure.
\<close>

definition getCropAdvisory ::
  "nat \<Rightarrow> string \<Rightarrow> CurrentWeather WeatherResponse \<Rightarrow> WeatherForecast WeatherResponse
     \<Rightarrow> CropAdvisory WeatherResponse" where
  "getCropAdvisory hours now currentWeather hourlyForecast =
     respond now
       (if \<not> success currentWeather \<or> \<not> success hourlyForecast
        then Inl (Error ''Failed to fetch weather data for analysis'')
        else
          (case data currentWeather of
             None \<Rightarrow> Inl (TypeError ''Cannot read properties of undefined (reading current)'')
           | Some cw \<Rightarrow>
               (case data hourlyForecast of
                  None \<Rightarrow> Inl (TypeError ''Cannot read properties of undefined (reading forecast)'')
                | Some hf \<Rightarrow>
                    (let cur = current cw;
                         forecast = wf_forecast hf;
                         location = cw_location cw;
                         frost = analyzeFrostRisk (temperature cur) forecast;
                         irrigation = generateIrrigationAdvice cur forecast;
                         spraying = analyzeSprayingConditions hours cur forecast;
                         heatStress = assessHeatStress cur forecast;
                         overall = generateOverallAdvice frost irrigation spraying heatStress
                     in Inr \<lparr>adv_location = \<lparr>name = name location, lat = lat location, lon = lon location\<rparr>,
                             adv_frost = frost,
                             adv_irrigation = irrigation,
                             adv_spraying = spraying,
                             adv_heatStress = heatStress,
                             adv_generalAdvice = oa_generalAdvice overall,
                             adv_priority = oa_priority overall,
                             adv_lastUpdated = now\<rparr>))))"

text \<open>The \<^verbatim>\<open>try\<close>/\<^verbatim>\<open>catch\<close> of the two smaller entry points: an envelope with no timestamp.\<close>

definition settle :: "exn + 'a \<Rightarrow> 'a Result" where
  "settle r =
     (case r of
        Inr v \<Rightarrow> \<lparr>success = True, data = Some v, error = None\<rparr>
      | Inl e \<Rightarrow> \<lparr>success = False, data = None, error = Some (exn_message e)\<rparr>)"

text \<open>
  \<^verbatim>\<open>getFrostAlert\<close> awaits the forecast, checks it, and only then awaits the current
  weather, whose \<^verbatim>\<open>success\<close> it never reads:
  \<^verbatim>\<open>current.data?.current.temperature || 20\<close> is \<open>20\<close> when \<^verbatim>\<open>data\<close> is absent.
\<close>

definition getFrostAlert ::
  "WeatherForecast WeatherResponse \<Rightarrow> CurrentWeather WeatherResponse \<Rightarrow> FrostAlert Result" where
  "getFrostAlert forecast cur =
     settle
       (if \<not> success forecast then Inl (Error ''Weather data unavailable'')
        else
          (let currentTemp =
                 (case data cur of None \<Rightarrow> 20 | Some cw \<Rightarrow> js_or (temperature (current cw)) 20)
           in case data forecast of
                None \<Rightarrow> Inl (TypeError ''Cannot read properties of undefined (reading forecast)'')
              | Some f \<Rightarrow> Inr (analyzeFrostRisk currentTemp (wf_forecast f))))"

definition getIrrigationAdvice ::
  "CurrentWeather WeatherResponse \<Rightarrow> WeatherForecast WeatherResponse \<Rightarrow> IrrigationAdvice Result" where
  "getIrrigationAdvice cur forecast =
     settle
       (if \<not> success cur \<or> \<not> success forecast then Inl (Error ''Weather data unavailable'')
        else
          (case data cur of
             None \<Rightarrow> Inl (TypeError ''Cannot read properties of undefined (reading current)'')
           | Some cw \<Rightarrow>
               (case data forecast of
                  None \<Rightarrow> Inl (TypeError ''Cannot read properties of undefined (reading forecast)'')
                | Some f \<Rightarrow> Inr (generateIrrigationAdvice (current cw) (wf_forecast f)))))"

section \<open>What a grouping by date is\<close>

text \<open>
  The map \<open>m\<close> groups the samples by date: its keys are the dates of the samples, each
  once, and under each key stand the samples of that date, in their order.
\<close>

definition grouped :: "Measurement list \<Rightarrow> dailyMap \<Rightarrow> bool" where
  "grouped samples m \<longleftrightarrow>
     distinct (map fst m)
     \<and> set (map fst m) = date ` set samples
     \<and> (\<forall>(k, items) \<in> set m. items = filter (\<lambda>x. date x = k) samples)"

section \<open>Sample inputs\<close>

text \<open>Concrete inputs on which the theorems below are run.\<close>

definition clear_sky :: Weather where
  "clear_sky = \<lparr>main = ''Clear'', description = ''clear sky'', icon = ''01d''\<rparr>"

definition pune :: Location where
  "pune = \<lparr>name = ''Pune'', lat = 18.52, lon = 73.86\<rparr>"

text \<open>Current conditions with the given temperature, humidity and wind speed.\<close>

definition conditions_at :: "real \<Rightarrow> real \<Rightarrow> real \<Rightarrow> Current" where
  "conditions_at t h w =
     \<lparr>temperature = t, humidity = h, pressure = 1012, windSpeed = w, weather = clear_sky,
      feelsLike = t, windDirection = 0, visibility = 10, uvIndex = 0\<rparr>"

definition current_at :: "real \<Rightarrow> real \<Rightarrow> real \<Rightarrow> CurrentWeather" where
  "current_at t h w =
     \<lparr>cw_location = \<lparr>name = ''Pune'', lat = 18.52, lon = 73.86, country = ''IN''\<rparr>,
      current = conditions_at t h w,
      cw_timestamp = ''2024-05-01T06:00:00.000Z''\<rparr>"

text \<open>A forecast sample with the given date, temperature, wind speed and precipitation.\<close>

definition sample :: "string \<Rightarrow> real \<Rightarrow> real \<Rightarrow> real \<Rightarrow> Measurement" where
  "sample d t w p =
     \<lparr>temperature = t, humidity = 60, pressure = 1012, windSpeed = w, weather = clear_sky,
      date = d, datetime = d @ ''T12:00:00.000Z'', precipitation = p\<rparr>"

text \<open>A daily entry with the given date, minimum, maximum and average temperature.\<close>

definition daily :: "string \<Rightarrow> real \<Rightarrow> real \<Rightarrow> real \<Rightarrow> 'w \<Rightarrow> 'w DailyEntry" where
  "daily d lo hi avg w =
     \<lparr>day_date = d, day_temperature = \<lparr>tmin = lo, tmax = hi, average = avg\<rparr>,
      day_humidity = 60, day_pressure = 1012, day_windSpeed = 3, day_precipitation = 0,
      day_weather = w\<rparr>"

definition daily_forecast :: "Weather DailyEntry list \<Rightarrow> DailyForecast" where
  "daily_forecast days =
     \<lparr>df_location = pune, df_forecast = days, df_timestamp = ''2024-05-01T06:00:00.000Z''\<rparr>"



text \<open>The envelopes a fetch of the weather service returns: with data, or with an error.\<close>

definition fetched :: "'a \<Rightarrow> 'a WeatherResponse" where
  "fetched v = \<lparr>success = True, data = Some v, error = None, timestamp = ''2024-05-01T06:00:00.000Z''\<rparr>"

definition unavailable :: "'a WeatherResponse" where
  "unavailable =
     \<lparr>success = False, data = None, error = Some ''Request failed with status code 429'',
      timestamp = ''2024-05-01T06:00:00.000Z''\<rparr>"

definition hourly_forecast :: "Measurement list \<Rightarrow> WeatherForecast" where
  "hourly_forecast samples =
     \<lparr>wf_location = pune, wf_forecast = samples, wf_timestamp = ''2024-05-01T06:00:00.000Z''\<rparr>"

definition historical_hourly :: "Measurement list \<Rightarrow> HistoricalWeather" where
  "historical_hourly samples =
     \<lparr>hw_location = pune, hw_data = samples,
      hw_period = \<lparr>period_start = ''2024-05-01'', period_end = ''2024-05-04''\<rparr>,
      hw_timestamp = ''2024-05-05T06:00:00.000Z''\<rparr>"

section \<open>Rounding to a double\<close>

lemma pow2_pos: "0 < pow2 e"
  by (simp add: pow2_def)

lemma pow2_Suc: "pow2 (e + 1) = 2 * pow2 e"
proof (cases "0 \<le> e")
  case True
  then show ?thesis by (simp add: pow2_def nat_add_distrib)
next
  case False
  then have "nat (- e) = Suc (nat (- (e + 1)))" by simp
  with False show ?thesis by (auto simp: pow2_def)
qed

lemma pow2_pred: "pow2 (e - 1) = pow2 e / 2"
  using pow2_Suc [of "e - 1"] by simp

lemma pow2_nat: "pow2 (int k) = 2 ^ k"
  by (simp add: pow2_def)

lemma pow2_neg_nat: "pow2 (- int k) = 1 / 2 ^ k"
  by (simp add: pow2_def)

text \<open>
  The search finds the binade of \<open>m\<close> times \<open>2\<close> to the power \<open>c\<close> when it has fuel for the
  distance.
\<close>

lemma exponent'_eq:
  "pow2 (e - c) \<le> m \<Longrightarrow> m < pow2 (e - c + 1) \<Longrightarrow> - 1022 \<le> e \<Longrightarrow> nat \<bar>e - c\<bar> \<le> n
     \<Longrightarrow> exponent' n m c = e"
proof (induction n arbitrary: m c)
  case 0
  then show ?case by simp
next
  case (Suc n)
  consider "e - c = 0" | "0 < e - c" | "e - c < 0" by linarith
  then show ?case
  proof cases
    case 1
    with Suc.prems have "1 \<le> m" "m < 2" by (simp_all add: pow2_def)
    with 1 show ?thesis by simp
  next
    case 2
    have "(2::real) ^ 1 \<le> 2 ^ nat (e - c)"
      by (rule power_increasing) (use 2 in simp_all)
    with 2 have "2 \<le> pow2 (e - c)" by (simp add: pow2_def)
    with Suc.prems(1) have m2: "2 \<le> m" by simp
    have a: "pow2 (e - (c + 1)) \<le> m / 2"
      using Suc.prems(1) pow2_pred [of "e - c"] by (simp add: algebra_simps)
    have b: "m / 2 < pow2 (e - (c + 1) + 1)"
      using Suc.prems(2) pow2_Suc [of "e - c"] by (simp add: algebra_simps)
    have c: "nat \<bar>e - (c + 1)\<bar> \<le> n" using 2 Suc.prems(4) by linarith
    from Suc.IH [OF a b Suc.prems(3) c] m2 show ?thesis by simp
  next
    case 3
    then have "e - c + 1 \<le> 0" by simp
    then have "pow2 (e - c + 1) \<le> 1"
      by (auto simp: pow2_def field_simps)
    with Suc.prems(2) have m1: "m < 1" by simp
    from 3 Suc.prems(3) have ce: "- 1022 < c" by linarith
    have a: "pow2 (e - (c - 1)) \<le> m * 2"
      using Suc.prems(1) pow2_Suc [of "e - c"] by (simp add: algebra_simps)
    have b: "m * 2 < pow2 (e - (c - 1) + 1)"
      using Suc.prems(2) pow2_Suc [of "e - c + 1"] by (simp add: algebra_simps)
    have c: "nat \<bar>e - (c - 1)\<bar> \<le> n" using 3 Suc.prems(4) by linarith
    from Suc.IH [OF a b Suc.prems(3) c] m1 ce show ?thesis by simp
  qed
qed

lemma exponent_eq:
  assumes "pow2 e \<le> \<bar>x\<bar>" "\<bar>x\<bar> < pow2 (e + 1)" "- 1022 \<le> e" "e \<le> 1023"
  shows "exponent x = e"
  unfolding exponent_def
  by (rule exponent'_eq) (use assms in simp_all)

text \<open>How a rounding is computed once the binade of \<open>x\<close> is known.\<close>

lemma fl_eqI:
  assumes "pow2 e \<le> \<bar>x\<bar>" "\<bar>x\<bar> < pow2 (e + 1)" "- 1022 \<le> e" "e \<le> 1023"
    and "round_even (x / pow2 (e - 52)) = n"
  shows "fl x = of_int n * pow2 (e - 52)"
  using assms(5) by (simp add: fl_def exponent_eq [OF assms(1-4)])

lemma fl_zero [simp]: "fl 0 = 0"
  by (simp add: fl_def round_even_def)

lemma round_even_of_int [simp]: "round_even (of_int k) = k"
  by (simp add: round_even_def)

text \<open>The natural numbers below \<open>2\<close> to the power 53 are doubles.\<close>

lemma fl_of_nat:
  assumes "0 < n" and "n < 2 ^ 53"
  shows "fl (real n) = real n"
proof -
  from assms(1) have "1 \<le> n" by simp
  from ex_power_ivl1 [OF order_refl this] obtain e where e: "2 ^ e \<le> n" "n < 2 ^ (e + 1)"
    by blast
  have "e < 53"
  proof (rule ccontr)
    assume "\<not> e < 53"
    then have "(2::nat) ^ 53 \<le> 2 ^ e" by (intro power_increasing) simp_all
    with e(1) assms(2) show False by simp
  qed
  then have "e + (52 - e) = 52" by simp
  then obtain j where j: "52 = e + j" by metis
  then have ej: "int e - 52 = - int j" by simp
  have lo: "pow2 (int e) \<le> \<bar>real n\<bar>"
    using e(1) by (simp add: pow2_nat)
  have hi: "\<bar>real n\<bar> < pow2 (int e + 1)"
  proof -
    from e(2) have "real n < real (2 ^ (e + 1))" by (simp only: of_nat_less_iff)
    moreover have "int e + 1 = int (e + 1)" by simp
    ultimately show ?thesis by (simp only: pow2_nat) simp
  qed
  have "real n / pow2 (int e - 52) = of_int (int n * 2 ^ j)"
    by (simp add: ej pow2_neg_nat)
  then have r: "round_even (real n / pow2 (int e - 52)) = int n * 2 ^ j"
    by (simp only: round_even_of_int)
  have "fl (real n) = of_int (int n * 2 ^ j) * pow2 (int e - 52)"
    by (rule fl_eqI [OF lo hi _ _ r]) (use \<open>e < 53\<close> in simp_all)
  also have "\<dots> = real n" by (simp add: ej pow2_neg_nat)
  finally show ?thesis .
qed

lemma fl_numeral: "(numeral k :: nat) < 9007199254740992 \<Longrightarrow> fl (numeral k) = numeral k"
  using fl_of_nat [of "numeral k"] by simp

lemma fl_one [simp]: "fl 1 = 1"
  using fl_of_nat [of 1] by simp

lemma foldl_fadd_replicate_zero: "foldl fadd 0 (replicate n 0) = 0"
  by (induction n) (simp_all add: fadd_def)

text \<open>The doubles that the decimals 0.1, 0.2, 0.4, 4.2 and 4.7 denote.\<close>

lemma fl_tenth: "fl (1 / 10) = 3602879701896397 / 36028797018963968"
  by (rule trans [OF fl_eqI [where e = "- 4" and n = 7205759403792794]])
     (simp_all add: pow2_def round_even_def)

lemma fl_two_tenths: "fl (2 / 10) = 3602879701896397 / 18014398509481984"
  by (rule trans [OF fl_eqI [where e = "- 3" and n = 7205759403792794]])
     (simp_all add: pow2_def round_even_def)

lemma fl_four_tenths: "fl (4 / 10) = 3602879701896397 / 9007199254740992"
  by (rule trans [OF fl_eqI [where e = "- 2" and n = 7205759403792794]])
     (simp_all add: pow2_def round_even_def)

lemma fl_four_point_two: "fl (42 / 10) = 4728779608739021 / 1125899906842624"
  by (rule trans [OF fl_eqI [where e = 2 and n = 4728779608739021]])
     (simp_all add: pow2_def round_even_def)

lemma fl_four_point_seven: "fl (47 / 10) = 5291729562160333 / 1125899906842624"
  by (rule trans [OF fl_eqI [where e = 2 and n = 5291729562160333]])
     (simp_all add: pow2_def round_even_def)

text \<open>The running sums of 0.1, 0.1, 0.1, and their mean.\<close>

lemma fadd_zero_tenth:
  "fadd 0 (3602879701896397 / 36028797018963968) = 3602879701896397 / 36028797018963968"
  unfolding fadd_def
  by (rule trans [OF fl_eqI [where e = "- 4" and n = 7205759403792794]])
     (simp_all add: pow2_def round_even_def)

lemma fadd_tenth_tenth:
  "fadd (3602879701896397 / 36028797018963968) (3602879701896397 / 36028797018963968)
     = 3602879701896397 / 18014398509481984"
  unfolding fadd_def
  by (rule trans [OF fl_eqI [where e = "- 3" and n = 7205759403792794]])
     (simp_all add: pow2_def round_even_def)

lemma fadd_two_tenths_tenth:
  "fadd (3602879701896397 / 18014398509481984) (3602879701896397 / 36028797018963968)
     = 1351079888211149 / 4503599627370496"
  unfolding fadd_def
  by (rule trans [OF fl_eqI [where e = "- 2" and n = 5404319552844596]])
     (simp_all add: pow2_def round_even_def)

lemma fdiv_three_tenths_three:
  "fdiv (1351079888211149 / 4503599627370496) 3 = 7205759403792795 / 72057594037927936"
  unfolding fdiv_def
  by (rule trans [OF fl_eqI [where e = "- 4" and n = 7205759403792795]])
     (simp_all add: pow2_def round_even_def)

text \<open>The running sums of 0.1, 0.2, 4.7 and of 0.4, 4.2, 0.4.\<close>

lemma fadd_tenth_two_tenths:
  "fadd (3602879701896397 / 36028797018963968) (3602879701896397 / 18014398509481984)
     = 1351079888211149 / 4503599627370496"
  unfolding fadd_def
  by (rule trans [OF fl_eqI [where e = "- 2" and n = 5404319552844596]])
     (simp_all add: pow2_def round_even_def)

lemma fadd_three_tenths_four_point_seven:
  "fadd (1351079888211149 / 4503599627370496) (5291729562160333 / 1125899906842624) = 5"
  unfolding fadd_def
  by (rule trans [OF fl_eqI [where e = 2 and n = 5629499534213120]])
     (simp_all add: pow2_def round_even_def)

lemma fadd_zero_four_tenths:
  "fadd 0 (3602879701896397 / 9007199254740992) = 3602879701896397 / 9007199254740992"
  unfolding fadd_def
  by (rule trans [OF fl_eqI [where e = "- 2" and n = 7205759403792794]])
     (simp_all add: pow2_def round_even_def)

lemma fadd_four_tenths_four_point_two:
  "fadd (3602879701896397 / 9007199254740992) (4728779608739021 / 1125899906842624)
     = 5179139571476071 / 1125899906842624"
  unfolding fadd_def
  by (rule trans [OF fl_eqI [where e = 2 and n = 5179139571476071]])
     (simp_all add: pow2_def round_even_def)

lemma fadd_four_point_six_four_tenths:
  "fadd (5179139571476071 / 1125899906842624) (3602879701896397 / 9007199254740992)
     = 5629499534213121 / 1125899906842624"
  unfolding fadd_def
  by (rule trans [OF fl_eqI [where e = 2 and n = 5629499534213121]])
     (simp_all add: pow2_def round_even_def)

section \<open>Growing degree days\<close>







section \<open>Frost risk of the insights\<close>

lemma frostRisk_list_ex:
  "frostRisk (calculateAgriculturalInsights cur fc)
     = list_ex (\<lambda>m. m < 2) (map (\<lambda>day. tmin (day_temperature day)) (take 3 (df_forecast fc)))"
  by (simp add: calculateAgriculturalInsights_def Let_def list_ex_iff)

text \<open>
  C7. The \<open>frostRisk\<close> of the insights is true if and only if one of the first three
  daily entries of the forecast has a minimum temperature below 2. In particular, when the
  minimums of the next three days are 3, 4 and 6 it is false, and when they are 1, 5 and 6
  it is true.
\<close>

theorem frostRisk_first_three_days:
  "(frostRisk (calculateAgriculturalInsights cur fc)
      \<longleftrightarrow> (\<exists>day \<in> set (take 3 (df_forecast fc)). tmin (day_temperature day) < 2))
   \<and> (map (\<lambda>day. tmin (day_temperature day)) (take 3 (df_forecast fc)) = [3, 4, 6]
        \<longrightarrow> \<not> frostRisk (calculateAgriculturalInsights cur fc))
   \<and> (map (\<lambda>day. tmin (day_temperature day)) (take 3 (df_forecast fc)) = [1, 5, 6]
        \<longrightarrow> frostRisk (calculateAgriculturalInsights cur fc))"
  by (simp add: frostRisk_list_ex) (simp add: list_ex_iff)

theorem frostRisk_first_three_days_witness:
  "\<not> frostRisk (calculateAgriculturalInsights (current_at 12 60 5)
        (daily_forecast [daily ''2024-05-01'' 3 14 8 clear_sky, daily ''2024-05-02'' 4 15 9 clear_sky,
                         daily ''2024-05-03'' 6 18 12 clear_sky, daily ''2024-05-04'' 0 9 5 clear_sky]))
   \<and> frostRisk (calculateAgriculturalInsights (current_at 12 60 5)
        (daily_forecast [daily ''2024-05-01'' 1 14 8 clear_sky, daily ''2024-05-02'' 5 15 9 clear_sky,
                         daily ''2024-05-03'' 6 18 12 clear_sky]))"
  using frostRisk_first_three_days [of "current_at 12 60 5"
          "daily_forecast [daily ''2024-05-01'' 3 14 8 clear_sky, daily ''2024-05-02'' 4 15 9 clear_sky,
                         daily ''2024-05-03'' 6 18 12 clear_sky, daily ''2024-05-04'' 0 9 5 clear_sky]"]
        frostRisk_first_three_days [of "current_at 12 60 5"
          "daily_forecast [daily ''2024-05-01'' 1 14 8 clear_sky, daily ''2024-05-02'' 5 15 9 clear_sky,
                         daily ''2024-05-03'' 6 18 12 clear_sky]"]
  by (simp add: daily_forecast_def daily_def)

section \<open>Overall priority and advice\<close>

text \<open>
  C8. For every four alerts, the priority of \<open>generateOverallAdvice\<close> is urgent exactly
  when the frost risk is critical, the heat stress extreme or the irrigation immediate;
  otherwise high exactly when the frost risk is high, the heat stress high or the irrigation
  within 24 hours; otherwise medium exactly when the frost risk is moderate, the heat stress
  moderate or the irrigation within 48 hours; otherwise low. The advice list holds the
  optimal-conditions entry exactly when frost risk and heat stress are both none, whatever
  the priority.
\<close>

theorem overall_priority_and_optimal:
  "(oa_priority (generateOverallAdvice f i s h) = Priority_urgent
      \<longleftrightarrow> frost_risk f = Frost_critical \<or> heat_risk h = Heat_extreme \<or> irr_recommendation i = Immediate)
   \<and> (oa_priority (generateOverallAdvice f i s h) = Priority_high
      \<longleftrightarrow> \<not> (frost_risk f = Frost_critical \<or> heat_risk h = Heat_extreme \<or> irr_recommendation i = Immediate)
          \<and> (frost_risk f = Frost_high \<or> heat_risk h = Heat_high \<or> irr_recommendation i = Within_24h))
   \<and> (oa_priority (generateOverallAdvice f i s h) = Priority_medium
      \<longleftrightarrow> \<not> (frost_risk f = Frost_critical \<or> heat_risk h = Heat_extreme \<or> irr_recommendation i = Immediate)
          \<and> \<not> (frost_risk f = Frost_high \<or> heat_risk h = Heat_high \<or> irr_recommendation i = Within_24h)
          \<and> (frost_risk f = Frost_moderate \<or> heat_risk h = Heat_moderate \<or> irr_recommendation i = Within_48h))
   \<and> (oa_priority (generateOverallAdvice f i s h) = Priority_low
      \<longleftrightarrow> \<not> (frost_risk f = Frost_critical \<or> heat_risk h = Heat_extreme \<or> irr_recommendation i = Immediate)
          \<and> \<not> (frost_risk f = Frost_high \<or> heat_risk h = Heat_high \<or> irr_recommendation i = Within_24h)
          \<and> \<not> (frost_risk f = Frost_moderate \<or> heat_risk h = Heat_moderate \<or> irr_recommendation i = Within_48h))
   \<and> (''Optimal growing conditions - ideal for field work'' \<in> set (oa_generalAdvice (generateOverallAdvice f i s h))
      \<longleftrightarrow> frost_risk f = Frost_none \<and> heat_risk h = Heat_none)"
  by (simp add: generateOverallAdvice_def Let_def)

theorem overall_priority_and_optimal_witness:
  "oa_priority (generateOverallAdvice
       (analyzeFrostRisk 38 [sample ''2024-05-01'' 30 5 0, sample ''2024-05-01'' 24 5 0])
       (generateIrrigationAdvice (conditions_at 38 30 5) [sample ''2024-05-01'' 30 5 0, sample ''2024-05-01'' 24 5 0])
       (analyzeSprayingConditions 9 (conditions_at 38 30 5) [sample ''2024-05-01'' 30 5 0, sample ''2024-05-01'' 24 5 0])
       (assessHeatStress (conditions_at 38 30 5) [sample ''2024-05-01'' 30 5 0, sample ''2024-05-01'' 24 5 0]))
     = Priority_urgent
   \<and> ''Optimal growing conditions - ideal for field work'' \<in> set (oa_generalAdvice (generateOverallAdvice
       (analyzeFrostRisk 22 [sample ''2024-05-01'' 20 5 0, sample ''2024-05-01'' 14 5 0])
       (generateIrrigationAdvice (conditions_at 22 60 5) [sample ''2024-05-01'' 20 5 0, sample ''2024-05-01'' 14 5 0])
       (analyzeSprayingConditions 9 (conditions_at 22 60 5) [sample ''2024-05-01'' 20 5 0, sample ''2024-05-01'' 14 5 0])
       (assessHeatStress (conditions_at 22 60 5) [sample ''2024-05-01'' 20 5 0, sample ''2024-05-01'' 14 5 0])))"
  using overall_priority_and_optimal [of
       "analyzeFrostRisk 38 [sample ''2024-05-01'' 30 5 0, sample ''2024-05-01'' 24 5 0]"
       "generateIrrigationAdvice (conditions_at 38 30 5) [sample ''2024-05-01'' 30 5 0, sample ''2024-05-01'' 24 5 0]"
       "analyzeSprayingConditions 9 (conditions_at 38 30 5) [sample ''2024-05-01'' 30 5 0, sample ''2024-05-01'' 24 5 0]"
       "assessHeatStress (conditions_at 38 30 5) [sample ''2024-05-01'' 30 5 0, sample ''2024-05-01'' 24 5 0]"]
     overall_priority_and_optimal [of
       "analyzeFrostRisk 22 [sample ''2024-05-01'' 20 5 0, sample ''2024-05-01'' 14 5 0]"
       "generateIrrigationAdvice (conditions_at 22 60 5) [sample ''2024-05-01'' 20 5 0, sample ''2024-05-01'' 14 5 0]"
       "analyzeSprayingConditions 9 (conditions_at 22 60 5) [sample ''2024-05-01'' 20 5 0, sample ''2024-05-01'' 14 5 0]"
       "assessHeatStress (conditions_at 22 60 5) [sample ''2024-05-01'' 20 5 0, sample ''2024-05-01'' 14 5 0]"]
  by (simp add: analyzeFrostRisk_def generateIrrigationAdvice_def assessHeatStress_def
        conditions_at_def sample_def js_or_def fadd_def Let_def)

section \<open>Irrigation advice\<close>

lemma totalRain_fold:
  "foldl (\<lambda>sum item. fadd sum (js_or (precipitation item) 0)) acc xs
     = foldl fadd acc (map precipitation xs)"
  by (induction xs arbitrary: acc) (simp_all add: js_or_def)

text \<open>
  C2 as stated fails, whether the sum is taken of the doubles the code holds or of the
  decimals they were read from. The samples read from 0.1, 0.2 and 4.7 hold doubles whose
  sum exceeds 5; the code adds them to exactly 5, does not skip, and at temperature 38 and
  humidity 30 recommends immediate irrigation. The decimals 0.4, 4.2 and 0.4 sum to 5, which
  does not exceed 5; the code adds their doubles to more than 5 and skips.
\<close>

theorem rain_total_rounds_at_the_threshold:
  "fl (1 / 10) = 3602879701896397 / 36028797018963968
   \<and> fl (2 / 10) = 3602879701896397 / 18014398509481984
   \<and> fl (47 / 10) = 5291729562160333 / 1125899906842624
   \<and> (3602879701896397 / 36028797018963968 + 3602879701896397 / 18014398509481984
        + 5291729562160333 / 1125899906842624 :: real) > 5
   \<and> irr_recommendation (generateIrrigationAdvice (conditions_at 38 30 5)
        [sample ''2024-05-01'' 30 5 (3602879701896397 / 36028797018963968),
         sample ''2024-05-01'' 30 5 (3602879701896397 / 18014398509481984),
         sample ''2024-05-01'' 30 5 (5291729562160333 / 1125899906842624)]) = Immediate
   \<and> fl (4 / 10) = 3602879701896397 / 9007199254740992
   \<and> fl (42 / 10) = 4728779608739021 / 1125899906842624
   \<and> (4 / 10 + 42 / 10 + 4 / 10 :: real) = 5
   \<and> irr_recommendation (generateIrrigationAdvice (conditions_at 38 30 5)
        [sample ''2024-05-01'' 30 5 (3602879701896397 / 9007199254740992),
         sample ''2024-05-01'' 30 5 (4728779608739021 / 1125899906842624),
         sample ''2024-05-01'' 30 5 (3602879701896397 / 9007199254740992)]) = Skip"
proof -
  have a: "irr_recommendation (generateIrrigationAdvice (conditions_at 38 30 5)
        [sample ''2024-05-01'' 30 5 (3602879701896397 / 36028797018963968),
         sample ''2024-05-01'' 30 5 (3602879701896397 / 18014398509481984),
         sample ''2024-05-01'' 30 5 (5291729562160333 / 1125899906842624)]) = Immediate"
    by (simp add: generateIrrigationAdvice_def Let_def totalRain_fold conditions_at_def sample_def
          fadd_zero_tenth fadd_tenth_two_tenths fadd_three_tenths_four_point_seven)
  have b: "irr_recommendation (generateIrrigationAdvice (conditions_at 38 30 5)
        [sample ''2024-05-01'' 30 5 (3602879701896397 / 9007199254740992),
         sample ''2024-05-01'' 30 5 (4728779608739021 / 1125899906842624),
         sample ''2024-05-01'' 30 5 (3602879701896397 / 9007199254740992)]) = Skip"
    by (simp add: generateIrrigationAdvice_def Let_def totalRain_fold conditions_at_def sample_def
          fadd_zero_four_tenths fadd_four_tenths_four_point_two fadd_four_point_six_four_tenths)
  have c: "(3602879701896397 / 36028797018963968 + 3602879701896397 / 18014398509481984
        + 5291729562160333 / 1125899906842624 :: real) > 5"
    by simp
  have d: "(4 / 10 + 42 / 10 + 4 / 10 :: real) = 5" by simp
  from fl_tenth fl_two_tenths fl_four_point_seven c a fl_four_tenths fl_four_point_two d b
  show ?thesis by (intro conjI)
qed

text \<open>
  C2, amended. For every current conditions and forecast, \<open>generateIrrigationAdvice\<close>
  recommends to skip whenever the precipitation of the first 16 forecast samples, added
  from 0 in their order with each partial sum rounded to a double as the code adds them,
  exceeds 5, whatever the temperature and the humidity. Otherwise it recommends the first
  tier that matches, in this order: immediate if the temperature is above 35 and the
  humidity below 35, within 24 hours if above 30 and below 40, within 48 hours if above 25
  and below 50, and to monitor if none does.
\<close>

theorem irrigation_skips_on_accumulated_rain:
  "(foldl fadd 0 (map precipitation (take 16 forecastData)) > 5
      \<longrightarrow> irr_recommendation (generateIrrigationAdvice cur forecastData) = Skip)
   \<and> (\<not> foldl fadd 0 (map precipitation (take 16 forecastData)) > 5
      \<longrightarrow> irr_recommendation (generateIrrigationAdvice cur forecastData) =
            (if temperature cur > 35 \<and> humidity cur < 35 then Immediate
             else if temperature cur > 30 \<and> humidity cur < 40 then Within_24h
             else if temperature cur > 25 \<and> humidity cur < 50 then Within_48h
             else Monitor))"
  by (simp add: generateIrrigationAdvice_def Let_def totalRain_fold)

theorem irrigation_skips_on_accumulated_rain_witness:
  "irr_recommendation (generateIrrigationAdvice (conditions_at 38 30 5)
      [sample ''2024-05-01'' 30 5 2, sample ''2024-05-01'' 24 5 0, sample ''2024-05-02'' 24 5 4]) = Skip
   \<and> irr_recommendation (generateIrrigationAdvice (conditions_at 38 30 5)
      [sample ''2024-05-01'' 30 5 2, sample ''2024-05-01'' 24 5 0, sample ''2024-05-02'' 24 5 3]) = Immediate
   \<and> irr_recommendation (generateIrrigationAdvice (conditions_at 32 38 5)
      (replicate 16 (sample ''2024-05-01'' 30 5 0) @ [sample ''2024-05-03'' 30 5 9])) = Within_24h"
  using irrigation_skips_on_accumulated_rain [of
      "[sample ''2024-05-01'' 30 5 2, sample ''2024-05-01'' 24 5 0, sample ''2024-05-02'' 24 5 4]"
      "conditions_at 38 30 5"]
    irrigation_skips_on_accumulated_rain [of
      "[sample ''2024-05-01'' 30 5 2, sample ''2024-05-01'' 24 5 0, sample ''2024-05-02'' 24 5 3]"
      "conditions_at 38 30 5"]
    irrigation_skips_on_accumulated_rain [of
      "replicate 16 (sample ''2024-05-01'' 30 5 0) @ [sample ''2024-05-03'' 30 5 9]"
      "conditions_at 32 38 5"]
  by (simp add: conditions_at_def sample_def fadd_def fl_numeral foldl_fadd_replicate_zero)

section \<open>Frost alert\<close>

lemma Math_min_least:
  "\<exists>m. Math_min xs = Num m \<and> m \<in> set xs \<and> (\<forall>x \<in> set xs. m \<le> x)" if "xs \<noteq> []"
proof (cases xs)
  case Nil
  with that show ?thesis by simp
next
  case (Cons a list)
  have "Min (set (a # list)) \<in> set (a # list)" by (rule Min_in) simp_all
  moreover have "\<forall>x \<in> set (a # list). Min (set (a # list)) \<le> x" by (simp del: set_simps)
  ultimately show ?thesis unfolding Cons Math_min.simps by blast
qed

lemma analyzeFrostRisk_ignores_currentTemp:
  "analyzeFrostRisk t forecastData = analyzeFrostRisk t' forecastData"
  by (simp add: analyzeFrostRisk_def)

text \<open>
  C6. For every forecast that is not empty, \<open>analyzeFrostRisk\<close> returns as temperature the
  lowest temperature \<open>m\<close> of the first 8 forecast samples (one of their temperatures, and at
  most each of them), and as risk exactly one tier: critical if \<open>m \<le> -2\<close>, else high if
  \<open>m \<le> 0\<close>, else moderate if \<open>m \<le> 2\<close>, else low if \<open>m \<le> 5\<close>, else none. The five tiers
  are the five intervals of \<open>m\<close>, which exclude one another and leave no value out.
\<close>

theorem frost_tier_of_lowest_temperature:
  assumes "forecastData \<noteq> []"
  shows "\<exists>m. frost_temperature (analyzeFrostRisk currentTemp forecastData) = Num m
           \<and> m \<in> set (map temperature (take 8 forecastData))
           \<and> (\<forall>item \<in> set (take 8 forecastData). m \<le> temperature item)
           \<and> frost_risk (analyzeFrostRisk currentTemp forecastData) =
                (if m \<le> - 2 then Frost_critical
                 else if m \<le> 0 then Frost_high
                 else if m \<le> 2 then Frost_moderate
                 else if m \<le> 5 then Frost_low
                 else Frost_none)
           \<and> (frost_risk (analyzeFrostRisk currentTemp forecastData) = Frost_critical \<longleftrightarrow> m \<le> - 2)
           \<and> (frost_risk (analyzeFrostRisk currentTemp forecastData) = Frost_high \<longleftrightarrow> - 2 < m \<and> m \<le> 0)
           \<and> (frost_risk (analyzeFrostRisk currentTemp forecastData) = Frost_moderate \<longleftrightarrow> 0 < m \<and> m \<le> 2)
           \<and> (frost_risk (analyzeFrostRisk currentTemp forecastData) = Frost_low \<longleftrightarrow> 2 < m \<and> m \<le> 5)
           \<and> (frost_risk (analyzeFrostRisk currentTemp forecastData) = Frost_none \<longleftrightarrow> 5 < m)"
proof -
  from assms have "map temperature (take 8 forecastData) \<noteq> []" by simp
  from Math_min_least [OF this] obtain m where
    m: "Math_min (map temperature (take 8 forecastData)) = Num m"
    and mem: "m \<in> set (map temperature (take 8 forecastData))"
    and least: "\<forall>x \<in> set (map temperature (take 8 forecastData)). m \<le> x"
    by blast
  have temp: "frost_temperature (analyzeFrostRisk currentTemp forecastData) = Num m"
    by (simp add: analyzeFrostRisk_def Let_def m)
  have risk: "frost_risk (analyzeFrostRisk currentTemp forecastData) =
                (if m \<le> - 2 then Frost_critical
                 else if m \<le> 0 then Frost_high
                 else if m \<le> 2 then Frost_moderate
                 else if m \<le> 5 then Frost_low
                 else Frost_none)"
    by (simp add: analyzeFrostRisk_def Let_def m)
  from least have least': "\<forall>item \<in> set (take 8 forecastData). m \<le> temperature item" by simp
  show ?thesis
    apply (rule exI [of _ m])
    using temp mem least' by (simp add: risk)
qed

theorem frost_tier_of_lowest_temperature_witness:
  "frost_risk (analyzeFrostRisk 12
       [sample ''2024-05-01'' 6 5 0, sample ''2024-05-01'' (3/2) 5 0, sample ''2024-05-01'' 4 5 0]) = Frost_moderate
   \<and> frost_temperature (analyzeFrostRisk 12
       [sample ''2024-05-01'' 6 5 0, sample ''2024-05-01'' (3/2) 5 0, sample ''2024-05-01'' 4 5 0]) = Num (3/2)"
proof -
  let ?xs = "[sample ''2024-05-01'' 6 5 0, sample ''2024-05-01'' (3/2) 5 0, sample ''2024-05-01'' 4 5 0]"
  have ne: "?xs \<noteq> []" by simp
  from frost_tier_of_lowest_temperature [OF ne, of 12] obtain m where
    temp: "frost_temperature (analyzeFrostRisk 12 ?xs) = Num m"
    and mem: "m \<in> set (map temperature (take 8 ?xs))"
    and least: "\<forall>item \<in> set (take 8 ?xs). m \<le> temperature item"
    and risk: "frost_risk (analyzeFrostRisk 12 ?xs) =
                (if m \<le> - 2 then Frost_critical
                 else if m \<le> 0 then Frost_high
                 else if m \<le> 2 then Frost_moderate
                 else if m \<le> 5 then Frost_low
                 else Frost_none)"
    by blast
  from mem have "m = 6 \<or> m = 3/2 \<or> m = 4" by (simp add: sample_def)
  moreover from least have "m \<le> 3/2" by (simp add: sample_def)
  ultimately have "m = 3/2" by linarith
  with temp risk show ?thesis by simp
qed

section \<open>Evapotranspiration\<close>

lemma temperatureRange_cases:
  "temperatureRange days =
     (case days of [] \<Rightarrow> 10
      | day0 # _ \<Rightarrow> if tmax (day_temperature day0) = tmin (day_temperature day0) then 10
                     else tmax (day_temperature day0) - tmin (day_temperature day0))"
  by (simp add: temperatureRange_def js_or_def split: list.splits)

lemma evapotranspiration_formula:
  "evapotranspiration (calculateAgriculturalInsights cur fc) =
     max 0 (0.0023 * (temperature (current cur) + 17.8) * sqrt \<bar>temperatureRange (df_forecast fc)\<bar>
            * (temperature (current cur) + 273.16) / 273.16 * 2.45)"
  by (simp add: calculateAgriculturalInsights_def Let_def)

text \<open>
  C4, at an input where the code leaves the claim. The first daily entry is there, with
  minimum and maximum both 15 (a day of one sample), and the current temperature is 20. The
  range \<open>max - min\<close> is 0, which \<^verbatim>\<open>||\<close> takes for absent, so the code computes with the
  fallback range 10 and returns a positive evapotranspiration, where the formula of the
  claim, with \<open>\<Delta>T = 0\<close>, gives 0.
\<close>

theorem evapotranspiration_zero_range_takes_fallback:
  "evapotranspiration (calculateAgriculturalInsights (current_at 20 60 5)
       (daily_forecast [daily ''2024-05-01'' 15 15 15 clear_sky]))
     = 0.0023 * (20 + 17.8) * sqrt 10 * (20 + 273.16) / 273.16 * 2.45
   \<and> max 0 (0.0023 * (20 + 17.8) * sqrt \<bar>15 - 15\<bar> * (20 + 273.16) / 273.16 * 2.45) = (0::real)
   \<and> evapotranspiration (calculateAgriculturalInsights (current_at 20 60 5)
       (daily_forecast [daily ''2024-05-01'' 15 15 15 clear_sky])) > 0"
  by (simp add: evapotranspiration_formula temperatureRange_cases current_at_def conditions_at_def
        daily_forecast_def daily_def)

section \<open>Spraying window\<close>

text \<open>
  C5, at inputs where the code leaves the claim. Wind 5 and temperature 20 now; of the
  three forecast samples the first two have rain and only the third, at offset 2 among the
  next 8 samples, is a good window. The conditions are suitable. At hour 0 the wall-clock
  hour of the good window is \<open>(0 + 3 * 2) mod 24 = 6\<close>, in \<open>[6, 10]\<close>, and the code gives the
  other hint: it counts the position of the sample among the good windows, which is 0. At
  hour 6 the wall-clock hour of the good window is 12, outside \<open>[6, 10]\<close>, and the code
  gives the early-morning hint.
\<close>

theorem bestTime_counts_positions_among_good_windows:
  "spray_suitable (analyzeSprayingConditions 0 (conditions_at 20 60 5)
       [sample ''2024-05-01'' 20 5 1, sample ''2024-05-01'' 21 5 1, sample ''2024-05-01'' 22 5 0])
   \<and> filter goodWindow [sample ''2024-05-01'' 20 5 1, sample ''2024-05-01'' 21 5 1, sample ''2024-05-01'' 22 5 0]
       = [[sample ''2024-05-01'' 20 5 1, sample ''2024-05-01'' 21 5 1, sample ''2024-05-01'' 22 5 0] ! 2]
   \<and> (0 + 3 * 2) mod 24 = (6::nat)
   \<and> spray_bestTime (analyzeSprayingConditions 0 (conditions_at 20 60 5)
       [sample ''2024-05-01'' 20 5 1, sample ''2024-05-01'' 21 5 1, sample ''2024-05-01'' 22 5 0])
       = ''Current conditions suitable - spray when convenient''
   \<and> (6 + 3 * 2) mod 24 = (12::nat)
   \<and> spray_bestTime (analyzeSprayingConditions 6 (conditions_at 20 60 5)
       [sample ''2024-05-01'' 20 5 1, sample ''2024-05-01'' 21 5 1, sample ''2024-05-01'' 22 5 0])
       = ''Early morning (6-10 AM) recommended for optimal results''"
  by (simp add: analyzeSprayingConditions_def goodWindow_def morningWindows_def js_or_def
        conditions_at_def sample_def Let_def enumerate_eq_zip)

section \<open>Failure of the entry points\<close>

lemma respond_wellformed:
  "(success (respond now r) \<and> data (respond now r) \<noteq> None \<and> error (respond now r) = None)
   \<or> (\<not> success (respond now r) \<and> data (respond now r) = None \<and> error (respond now r) \<noteq> None)"
  by (cases r) (simp_all add: respond_def)

lemma settle_wellformed:
  "(success (settle r) \<and> data (settle r) \<noteq> None \<and> error (settle r) = None)
   \<or> (\<not> success (settle r) \<and> data (settle r) = None \<and> error (settle r) \<noteq> None)"
  by (cases r) (simp_all add: settle_def)

text \<open>
  C3 as stated fails: the frost-alert entry point does not fail when the fetch of the
  current weather is unsuccessful. With a forecast that was fetched and a current weather
  that was not, \<open>getFrostAlert\<close> reports success and no error.
\<close>

theorem frost_alert_survives_failed_current_fetch:
  "\<not> success (unavailable :: CurrentWeather WeatherResponse)
   \<and> success (getFrostAlert (fetched (hourly_forecast [sample ''2024-05-01'' 1 5 0])) unavailable)
   \<and> error (getFrostAlert (fetched (hourly_forecast [sample ''2024-05-01'' 1 5 0])) unavailable) = None"
  by (simp add: getFrostAlert_def settle_def fetched_def unavailable_def)

text \<open>
  C3, amended. Every entry point returns an envelope, whatever it is given: either success
  with data and no error, or failure with an error and no data; no throw is left uncaught.
  \<open>getCropAdvisory\<close> and \<open>getIrrigationAdvice\<close> fail when the current weather or the forecast
  is unsuccessful, and \<open>getAgriculturalWeather\<close> when one of its three datasets is; the
  failure envelope of \<open>getCropAdvisory\<close> and \<open>getAgriculturalWeather\<close> carries a timestamp,
  that of the other two does not. \<open>getFrostAlert\<close> fails when the forecast is unsuccessful;
  it succeeds exactly when the forecast is successful and has data, and its result does not
  depend on the envelope of the current weather at all.
\<close>

theorem advisory_fails_as_a_whole:
  "(\<not> success cw \<or> \<not> success hf \<longrightarrow>
      getCropAdvisory hours now cw hf =
        \<lparr>success = False, data = None, error = Some ''Failed to fetch weather data for analysis'',
         timestamp = now\<rparr>)
   \<and> (\<not> success cw \<or> \<not> success hf \<longrightarrow>
      getIrrigationAdvice cw hf =
        \<lparr>success = False, data = None, error = Some ''Weather data unavailable''\<rparr>)
   \<and> (\<not> success cw \<or> \<not> success hf \<or> \<not> success df \<longrightarrow>
      getAgriculturalWeather now cw hf df =
        \<lparr>success = False, data = None, error = Some ''Failed to fetch complete weather data'',
         timestamp = now\<rparr>)
   \<and> (\<not> success hf \<longrightarrow>
      getFrostAlert hf cw =
        \<lparr>success = False, data = None, error = Some ''Weather data unavailable''\<rparr>)
   \<and> (success (getFrostAlert hf cw) \<longleftrightarrow> success hf \<and> data hf \<noteq> None)
   \<and> getFrostAlert hf cw = getFrostAlert hf cw'
   \<and> ((success (getCropAdvisory hours now cw hf) \<and> data (getCropAdvisory hours now cw hf) \<noteq> None
          \<and> error (getCropAdvisory hours now cw hf) = None)
        \<or> (\<not> success (getCropAdvisory hours now cw hf) \<and> data (getCropAdvisory hours now cw hf) = None
          \<and> error (getCropAdvisory hours now cw hf) \<noteq> None))
   \<and> ((success (getIrrigationAdvice cw hf) \<and> data (getIrrigationAdvice cw hf) \<noteq> None
          \<and> error (getIrrigationAdvice cw hf) = None)
        \<or> (\<not> success (getIrrigationAdvice cw hf) \<and> data (getIrrigationAdvice cw hf) = None
          \<and> error (getIrrigationAdvice cw hf) \<noteq> None))
   \<and> ((success (getFrostAlert hf cw) \<and> data (getFrostAlert hf cw) \<noteq> None
          \<and> error (getFrostAlert hf cw) = None)
        \<or> (\<not> success (getFrostAlert hf cw) \<and> data (getFrostAlert hf cw) = None
          \<and> error (getFrostAlert hf cw) \<noteq> None))
   \<and> ((success (getAgriculturalWeather now cw hf df) \<and> data (getAgriculturalWeather now cw hf df) \<noteq> None
          \<and> error (getAgriculturalWeather now cw hf df) = None)
        \<or> (\<not> success (getAgriculturalWeather now cw hf df) \<and> data (getAgriculturalWeather now cw hf df) = None
          \<and> error (getAgriculturalWeather now cw hf df) \<noteq> None))"
proof -
  have crop: "\<not> success cw \<or> \<not> success hf \<longrightarrow>
      getCropAdvisory hours now cw hf =
        \<lparr>success = False, data = None, error = Some ''Failed to fetch weather data for analysis'',
         timestamp = now\<rparr>"
    by (simp add: getCropAdvisory_def respond_def)
  have irr: "\<not> success cw \<or> \<not> success hf \<longrightarrow>
      getIrrigationAdvice cw hf =
        \<lparr>success = False, data = None, error = Some ''Weather data unavailable''\<rparr>"
    by (simp add: getIrrigationAdvice_def settle_def)
  have agri: "\<not> success cw \<or> \<not> success hf \<or> \<not> success df \<longrightarrow>
      getAgriculturalWeather now cw hf df =
        \<lparr>success = False, data = None, error = Some ''Failed to fetch complete weather data'',
         timestamp = now\<rparr>"
    by (simp add: getAgriculturalWeather_def respond_def)
  have frost: "\<not> success hf \<longrightarrow>
      getFrostAlert hf cw =
        \<lparr>success = False, data = None, error = Some ''Weather data unavailable''\<rparr>"
    by (simp add: getFrostAlert_def settle_def)
  have frost_iff: "success (getFrostAlert hf cw) \<longleftrightarrow> success hf \<and> data hf \<noteq> None"
    by (simp add: getFrostAlert_def settle_def Let_def split: option.splits)
  have frost_indep: "getFrostAlert hf cw = getFrostAlert hf cw'"
    by (cases "data hf") (simp_all add: getFrostAlert_def Let_def analyzeFrostRisk_def)
  have wf_crop: "(success (getCropAdvisory hours now cw hf) \<and> data (getCropAdvisory hours now cw hf) \<noteq> None
          \<and> error (getCropAdvisory hours now cw hf) = None)
        \<or> (\<not> success (getCropAdvisory hours now cw hf) \<and> data (getCropAdvisory hours now cw hf) = None
          \<and> error (getCropAdvisory hours now cw hf) \<noteq> None)"
    unfolding getCropAdvisory_def by (rule respond_wellformed)
  have wf_irr: "(success (getIrrigationAdvice cw hf) \<and> data (getIrrigationAdvice cw hf) \<noteq> None
          \<and> error (getIrrigationAdvice cw hf) = None)
        \<or> (\<not> success (getIrrigationAdvice cw hf) \<and> data (getIrrigationAdvice cw hf) = None
          \<and> error (getIrrigationAdvice cw hf) \<noteq> None)"
    unfolding getIrrigationAdvice_def by (rule settle_wellformed)
  have wf_frost: "(success (getFrostAlert hf cw) \<and> data (getFrostAlert hf cw) \<noteq> None
          \<and> error (getFrostAlert hf cw) = None)
        \<or> (\<not> success (getFrostAlert hf cw) \<and> data (getFrostAlert hf cw) = None
          \<and> error (getFrostAlert hf cw) \<noteq> None)"
    unfolding getFrostAlert_def by (rule settle_wellformed)
  have wf_agri: "(success (getAgriculturalWeather now cw hf df) \<and> data (getAgriculturalWeather now cw hf df) \<noteq> None
          \<and> error (getAgriculturalWeather now cw hf df) = None)
        \<or> (\<not> success (getAgriculturalWeather now cw hf df) \<and> data (getAgriculturalWeather now cw hf df) = None
          \<and> error (getAgriculturalWeather now cw hf df) \<noteq> None)"
    unfolding getAgriculturalWeather_def by (rule respond_wellformed)
  show ?thesis
    apply (intro conjI)
    apply (rule crop)
    apply (rule irr)
    apply (rule agri)
    apply (rule frost)
    apply (rule frost_iff)
    apply (rule frost_indep)
    apply (rule wf_crop)
    apply (rule wf_irr)
    apply (rule wf_frost)
    apply (rule wf_agri)
    done
qed

theorem advisory_fails_as_a_whole_witness:
  "getCropAdvisory 9 ''2024-05-01T09:00:00.000Z'' unavailable
       (fetched (hourly_forecast [sample ''2024-05-01'' 1 5 0]))
     = \<lparr>success = False, data = None, error = Some ''Failed to fetch weather data for analysis'',
        timestamp = ''2024-05-01T09:00:00.000Z''\<rparr>
   \<and> getIrrigationAdvice (fetched (current_at 20 60 5)) unavailable
     = \<lparr>success = False, data = None, error = Some ''Weather data unavailable''\<rparr>
   \<and> getFrostAlert unavailable (fetched (current_at 20 60 5))
     = \<lparr>success = False, data = None, error = Some ''Weather data unavailable''\<rparr>
   \<and> success (getFrostAlert (fetched (hourly_forecast [sample ''2024-05-01'' 1 5 0])) unavailable)"
  using advisory_fails_as_a_whole [of unavailable "fetched (hourly_forecast [sample ''2024-05-01'' 1 5 0])"
          9 "''2024-05-01T09:00:00.000Z''" unavailable unavailable]
        advisory_fails_as_a_whole [of "fetched (current_at 20 60 5)" unavailable
          9 "''2024-05-01T09:00:00.000Z''" unavailable "fetched (current_at 20 60 5)"]
  by (simp add: fetched_def unavailable_def)

section \<open>Grouping by date\<close>

lemma pushItem_Nil: "pushItem item [] = [(date item, [item])]"
  by (simp add: pushItem_def has_def)

lemma pushItem_Cons:
  "pushItem item ((k, v) # m) =
     (if k = date item then (k, v @ [item]) # m else (k, v) # pushItem item m)"
  by (simp add: pushItem_def has_def Let_def)

lemma pushItem_keys:
  "map fst (pushItem item m) =
     (if date item \<in> set (map fst m) then map fst m else map fst m @ [date item])"
  by (induction m) (force simp: pushItem_Nil pushItem_Cons)+

lemma pushItem_sizes:
  "(\<Sum>g\<leftarrow>pushItem item m. length (snd g)) = Suc (\<Sum>g\<leftarrow>m. length (snd g))"
  by (induction m) (auto simp: pushItem_Nil pushItem_Cons)

lemma pushItem_map_of:
  "map_of (pushItem item m) k =
     (if k = date item
      then Some ((case map_of m k of None \<Rightarrow> [] | Some v \<Rightarrow> v) @ [item])
      else map_of m k)"
  by (induction m) (auto simp: pushItem_Nil pushItem_Cons)

lemma grouped_pushItem:
  assumes "grouped pre m"
  shows "grouped (pre @ [x]) (pushItem x m)"
proof -
  from assms have dist: "distinct (map fst m)"
    and keys: "set (map fst m) = date ` set pre"
    and cont: "\<And>k items. (k, items) \<in> set m \<Longrightarrow> items = filter (\<lambda>y. date y = k) pre"
    by (auto simp: grouped_def)
  have dist': "distinct (map fst (pushItem x m))"
    using dist by (simp add: pushItem_keys)
  have keys': "set (map fst (pushItem x m)) = date ` set (pre @ [x])"
    using keys by (auto simp: pushItem_keys)
  have cont': "items = filter (\<lambda>y. date y = k) (pre @ [x])" if "(k, items) \<in> set (pushItem x m)" for k items
  proof -
    from that dist' have look: "map_of (pushItem x m) k = Some items" by simp
    show ?thesis
    proof (cases "k = date x")
      case True
      show ?thesis
      proof (cases "map_of m k")
        case None
        then have "k \<notin> date ` set pre" using keys by (simp add: map_of_eq_None_iff)
        then have empty: "filter (\<lambda>y. date y = k) pre = []" by (auto simp: filter_empty_conv)
        from look True None have "items = [x]" by (simp add: pushItem_map_of)
        with empty True show ?thesis by simp
      next
        case (Some v)
        then have "(k, v) \<in> set m" by (rule map_of_SomeD)
        then have "v = filter (\<lambda>y. date y = k) pre" by (rule cont)
        with look True Some show ?thesis by (simp add: pushItem_map_of)
      qed
    next
      case False
      with look have "map_of m k = Some items" by (simp add: pushItem_map_of)
      then have "(k, items) \<in> set m" by (rule map_of_SomeD)
      then have "items = filter (\<lambda>y. date y = k) pre" by (rule cont)
      with False show ?thesis by auto
    qed
  qed
  show ?thesis
    unfolding grouped_def using dist' keys' cont' by blast
qed

lemma grouped_fold:
  "grouped pre m \<Longrightarrow> grouped (pre @ xs) (fold pushItem xs m)"
proof (induction xs arbitrary: pre m)
  case Nil
  then show ?case by simp
next
  case (Cons x xs)
  from Cons.prems have "grouped (pre @ [x]) (pushItem x m)" by (rule grouped_pushItem)
  from Cons.IH [OF this] show ?case by simp
qed

lemma grouped_buildDailyMap: "grouped samples (buildDailyMap samples)"
  using grouped_fold [of "[]" "[]" samples] by (simp add: buildDailyMap_def grouped_def)

lemma sizes_fold:
  "(\<Sum>g\<leftarrow>fold pushItem xs m. length (snd g)) = length xs + (\<Sum>g\<leftarrow>m. length (snd g))"
  by (induction xs arbitrary: m) (simp_all add: pushItem_sizes)

lemma sizes_buildDailyMap:
  "(\<Sum>g\<leftarrow>buildDailyMap samples. length (snd g)) = length samples"
  by (simp add: buildDailyMap_def sizes_fold)

lemma sorted_fold:
  "sorted_wrt (<) (map fst m) \<Longrightarrow> (\<forall>k \<in> set (map fst m). \<forall>x \<in> set xs. k \<le> date x)
     \<Longrightarrow> sorted (map date xs) \<Longrightarrow> sorted_wrt (<) (map fst (fold pushItem xs m))"
proof (induction xs arbitrary: m)
  case Nil
  then show ?case by simp
next
  case (Cons x xs)
  have s: "sorted_wrt (<) (map fst (pushItem x m))"
  proof (cases "date x \<in> set (map fst m)")
    case True
    with Cons.prems(1) show ?thesis by (simp add: pushItem_keys)
  next
    case False
    have "\<forall>k \<in> set (map fst m). k < date x"
    proof
      fix k assume k: "k \<in> set (map fst m)"
      with Cons.prems(2) have "k \<le> date x" by auto
      moreover from k False have "k \<noteq> date x" by blast
      ultimately show "k < date x" by simp
    qed
    with Cons.prems(1) False show ?thesis
      by (simp add: pushItem_keys sorted_wrt_append)
  qed
  have b: "\<forall>k \<in> set (map fst (pushItem x m)). \<forall>y \<in> set xs. k \<le> date y"
    using Cons.prems(2,3) by (auto simp: pushItem_keys)
  from Cons.prems(3) have "sorted (map date xs)" by simp
  from Cons.IH [OF s b this] show ?case by simp
qed

lemma sorted_buildDailyMap:
  "sorted (map date samples) \<Longrightarrow> sorted_wrt (<) (map fst (buildDailyMap samples))"
  using sorted_fold [of "[]" samples] by (simp add: buildDailyMap_def)

section \<open>Aggregating one day\<close>

lemma sum_list_upper: "(\<forall>x \<in> set xs. x \<le> (M::real)) \<Longrightarrow> sum_list xs \<le> real (length xs) * M"
  by (induction xs) (simp_all add: algebra_simps)

lemma sum_list_lower: "(\<forall>x \<in> set xs. (L::real) \<le> x) \<Longrightarrow> real (length xs) * L \<le> sum_list xs"
  by (induction xs) (simp_all add: algebra_simps)

lemma mean_between_Min_Max:
  assumes "xs \<noteq> []"
  shows "Min (set xs) \<le> sum_list xs / real (length xs)" and "sum_list xs / real (length xs) \<le> Max (set xs)"
proof -
  from assms have n: "0 < real (length xs)" by simp
  have "\<forall>x \<in> set xs. Min (set xs) \<le> x" by simp
  then have "real (length xs) * Min (set xs) \<le> sum_list xs" by (rule sum_list_lower)
  with n show "Min (set xs) \<le> sum_list xs / real (length xs)"
    by (simp add: pos_le_divide_eq mult.commute)
  have "\<forall>x \<in> set xs. x \<le> Max (set xs)" by simp
  then have "sum_list xs \<le> real (length xs) * Max (set xs)" by (rule sum_list_upper)
  with n show "sum_list xs / real (length xs) \<le> Max (set xs)"
    by (simp add: pos_divide_le_eq mult.commute)
qed

lemma aggregateDay_temperature:
  assumes "items \<noteq> []"
  shows "\<exists>e. aggregateDay pick (k, items) = Inr e \<and> day_date e = k
            \<and> tmin (day_temperature e) = Min (set (map temperature items))
            \<and> tmax (day_temperature e) = Max (set (map temperature items))
            \<and> average (day_temperature e)
                = fdiv (foldl fadd 0 (map temperature items)) (real (length items))"
  using assms by (simp add: aggregateDay_def Let_def)

lemma aggregateDay_summary:
  assumes "items \<noteq> []"
  shows "\<exists>e. aggregateDay pick (k, items) = Inr e
            \<and> tmin (day_temperature e) \<in> temperature ` set items
            \<and> tmax (day_temperature e) \<in> temperature ` set items
            \<and> (\<forall>x \<in> set items. tmin (day_temperature e) \<le> temperature x
                                \<and> temperature x \<le> tmax (day_temperature e))
            \<and> tmin (day_temperature e) \<le> tmax (day_temperature e)
            \<and> average (day_temperature e)
                = fdiv (foldl fadd 0 (map temperature items)) (real (length items))
            \<and> tmin (day_temperature e) \<le> sum_list (map temperature items) / real (length items)
            \<and> sum_list (map temperature items) / real (length items) \<le> tmax (day_temperature e)"
proof -
  let ?ts = "map temperature items"
  from aggregateDay_temperature [OF assms, of pick k] obtain e where
    e: "aggregateDay pick (k, items) = Inr e"
    and lo: "tmin (day_temperature e) = Min (set ?ts)"
    and hi: "tmax (day_temperature e) = Max (set ?ts)"
    and avg: "average (day_temperature e) = fdiv (foldl fadd 0 ?ts) (real (length items))"
    by blast
  from assms have ne: "?ts \<noteq> []" and ne': "set ?ts \<noteq> {}" by simp_all
  have "Min (set ?ts) \<in> set ?ts" by (rule Min_in) (use ne' in simp_all)
  with lo have a: "tmin (day_temperature e) \<in> temperature ` set items" by simp
  have "Max (set ?ts) \<in> set ?ts" by (rule Max_in) (use ne' in simp_all)
  with hi have b: "tmax (day_temperature e) \<in> temperature ` set items" by simp
  have c: "\<forall>x \<in> set items. tmin (day_temperature e) \<le> temperature x
                          \<and> temperature x \<le> tmax (day_temperature e)"
    by (simp add: lo hi)
  from assms obtain x where "x \<in> set items" by (cases items) auto
  with c have d: "tmin (day_temperature e) \<le> tmax (day_temperature e)"
    by (blast intro: order_trans)
  from mean_between_Min_Max [OF ne] lo hi
  have m: "tmin (day_temperature e) \<le> sum_list ?ts / real (length items)"
          "sum_list ?ts / real (length items) \<le> tmax (day_temperature e)"
    by simp_all
  from e a b c d avg m show ?thesis by blast
qed

lemma aggregateDay_single:
  assumes "is_double (temperature x)"
  shows "\<exists>e. aggregateDay pick (k, [x]) = Inr e
      \<and> tmin (day_temperature e) = temperature x
      \<and> average (day_temperature e) = temperature x
      \<and> tmax (day_temperature e) = temperature x"
  using assms by (simp add: aggregateDay_def Let_def fadd_def fdiv_def is_double_def)

lemma mapE_aggregateDay:
  "(\<forall>g \<in> set gs. snd g \<noteq> []) \<Longrightarrow>
     \<exists>days. mapE (aggregateDay pick) gs = Inr days
        \<and> map day_date days = map fst gs
        \<and> list_all2 (\<lambda>g e. aggregateDay pick g = Inr e) gs days"
proof (induction gs)
  case Nil
  then show ?case by simp
next
  case (Cons g gs)
  obtain k items where g: "g = (k, items)" by (cases g)
  with Cons.prems have "items \<noteq> []" by simp
  from aggregateDay_temperature [OF this, of pick k] obtain e where
    e: "aggregateDay pick (k, items) = Inr e" "day_date e = k" by blast
  from Cons have "\<exists>days. mapE (aggregateDay pick) gs = Inr days
        \<and> map day_date days = map fst gs
        \<and> list_all2 (\<lambda>g e. aggregateDay pick g = Inr e) gs days" by simp
  then obtain days where "mapE (aggregateDay pick) gs = Inr days"
        "map day_date days = map fst gs"
        "list_all2 (\<lambda>g e. aggregateDay pick g = Inr e) gs days" by blast
  with e g show ?case by simp
qed

lemma grouped_nonempty: "grouped samples m \<Longrightarrow> \<forall>g \<in> set m. snd g \<noteq> []"
proof
  fix g assume gr: "grouped samples m" and g: "g \<in> set m"
  obtain k items where kv: "g = (k, items)" by (cases g)
  with g gr have items: "items = filter (\<lambda>x. date x = k) samples" by (auto simp: grouped_def)
  from g kv have "k \<in> set (map fst m)" by force
  with gr have "k \<in> date ` set samples" by (simp add: grouped_def)
  with items have "items \<noteq> []" by (auto simp: filter_empty_conv)
  with kv show "snd g \<noteq> []" by simp
qed

section \<open>Aggregating all days\<close>

lemma aggregateDay_date: "aggregateDay pick (k, items) = Inr e \<Longrightarrow> day_date e = k"
  by (auto simp: aggregateDay_def Let_def split: if_splits)

lemma list_all2_setD:
  "list_all2 P xs ys \<Longrightarrow> y \<in> set ys \<Longrightarrow> \<exists>x \<in> set xs. P x y"
  by (induction rule: list_all2_induct) auto

lemma sum_list_insort_key:
  "(\<Sum>e\<leftarrow>insort_key g x xs. (f e :: nat)) = f x + (\<Sum>e\<leftarrow>xs. f e)"
  by (induction xs) simp_all

lemma sum_list_sort_key:
  "(\<Sum>e\<leftarrow>sort_key g xs. (f e :: nat)) = (\<Sum>e\<leftarrow>xs. f e)"
  by (induction xs) (simp_all add: sum_list_insort_key)

lemma aggregate_all:
  "\<exists>days. mapE (aggregateDay pick) (buildDailyMap xs) = Inr days
      \<and> distinct (map day_date days)
      \<and> set (map day_date days) = date ` set xs
      \<and> (\<forall>e \<in> set days. aggregateDay pick (day_date e, filter (\<lambda>x. date x = day_date e) xs) = Inr e)
      \<and> (\<Sum>e\<leftarrow>days. length (filter (\<lambda>x. date x = day_date e) xs)) = length xs
      \<and> (xs = [] \<longrightarrow> days = [])
      \<and> (sorted (map date xs) \<longrightarrow> sorted_wrt (<) (map day_date days))"
proof -
  let ?gs = "buildDailyMap xs"
  have G: "grouped xs ?gs" by (rule grouped_buildDailyMap)
  from mapE_aggregateDay [OF grouped_nonempty [OF G], of pick] obtain days where
    ok: "mapE (aggregateDay pick) ?gs = Inr days"
    and dates: "map day_date days = map fst ?gs"
    and each: "list_all2 (\<lambda>g e. aggregateDay pick g = Inr e) ?gs days"
    by blast
  from G dates have d: "distinct (map day_date days)" and s: "set (map day_date days) = date ` set xs"
    by (simp_all add: grouped_def)
  have a: "\<forall>e \<in> set days. aggregateDay pick (day_date e, filter (\<lambda>x. date x = day_date e) xs) = Inr e"
  proof
    fix e assume "e \<in> set days"
    with each obtain g where g: "g \<in> set ?gs" "aggregateDay pick g = Inr e"
      by (blast dest: list_all2_setD)
    obtain k items where kv: "g = (k, items)" by (cases g)
    with g G have items: "items = filter (\<lambda>x. date x = k) xs" by (auto simp: grouped_def)
    from g kv have "day_date e = k" by (auto dest: aggregateDay_date)
    with g kv items show "aggregateDay pick (day_date e, filter (\<lambda>x. date x = day_date e) xs) = Inr e"
      by simp
  qed
  have "(\<Sum>e\<leftarrow>days. length (filter (\<lambda>x. date x = day_date e) xs))
          = (\<Sum>k\<leftarrow>map day_date days. length (filter (\<lambda>x. date x = k) xs))"
    by (simp add: comp_def)
  also have "\<dots> = (\<Sum>g\<leftarrow>?gs. length (filter (\<lambda>x. date x = fst g) xs))"
    by (simp add: dates comp_def)
  also have "\<dots> = (\<Sum>g\<leftarrow>?gs. length (snd g))"
  proof -
    have "map (\<lambda>g. length (filter (\<lambda>x. date x = fst g) xs)) ?gs = map (\<lambda>g. length (snd g)) ?gs"
      using G by (intro map_cong refl) (auto simp: grouped_def)
    then show ?thesis by (rule arg_cong)
  qed
  also have "\<dots> = length xs" by (rule sizes_buildDailyMap)
  finally have n: "(\<Sum>e\<leftarrow>days. length (filter (\<lambda>x. date x = day_date e) xs)) = length xs" .
  have e: "xs = [] \<longrightarrow> days = []"
    using dates by (auto simp: buildDailyMap_def)
  have o: "sorted (map date xs) \<longrightarrow> sorted_wrt (<) (map day_date days)"
    using dates sorted_buildDailyMap [of xs] by simp
  from ok d s a n e o show ?thesis by blast
qed

section \<open>The two aggregation functions\<close>

lemma aggregateDay_Inr_order:
  assumes "aggregateDay pick (k, items) = Inr e"
  shows "tmin (day_temperature e) \<le> tmax (day_temperature e)"
proof -
  from assms have "items \<noteq> []" by (auto simp: aggregateDay_def)
  from aggregateDay_summary [OF this, of pick k] assms show ?thesis by auto
qed

lemma getDailyForecast_ok:
  assumes "success r" and "data r = Some hourlyData"
  shows "\<exists>days. getDailyForecast now r =
             \<lparr>success = True,
              data = Some \<lparr>df_location = wf_location hourlyData, df_forecast = days, df_timestamp = now\<rparr>,
              error = None, timestamp = now\<rparr>
           \<and> distinct (map day_date days)
           \<and> set (map day_date days) = date ` set (wf_forecast hourlyData)
           \<and> (\<forall>e \<in> set days.
                 aggregateDay withIcon
                   (day_date e, filter (\<lambda>x. date x = day_date e) (wf_forecast hourlyData)) = Inr e)
           \<and> (\<Sum>e\<leftarrow>days. length (filter (\<lambda>x. date x = day_date e) (wf_forecast hourlyData)))
                = length (wf_forecast hourlyData)
           \<and> (wf_forecast hourlyData = [] \<longrightarrow> days = [])
           \<and> (sorted (map date (wf_forecast hourlyData)) \<longrightarrow> sorted_wrt (<) (map day_date days))"
proof -
  from aggregate_all [of withIcon "wf_forecast hourlyData"] obtain days where
    ok: "mapE (aggregateDay withIcon) (buildDailyMap (wf_forecast hourlyData)) = Inr days"
    and rest: "distinct (map day_date days)"
      "set (map day_date days) = date ` set (wf_forecast hourlyData)"
      "\<forall>e \<in> set days.
          aggregateDay withIcon
            (day_date e, filter (\<lambda>x. date x = day_date e) (wf_forecast hourlyData)) = Inr e"
      "(\<Sum>e\<leftarrow>days. length (filter (\<lambda>x. date x = day_date e) (wf_forecast hourlyData)))
          = length (wf_forecast hourlyData)"
      "wf_forecast hourlyData = [] \<longrightarrow> days = []"
      "sorted (map date (wf_forecast hourlyData)) \<longrightarrow> sorted_wrt (<) (map day_date days)"
    by blast
  have "getDailyForecast now r =
             \<lparr>success = True,
              data = Some \<lparr>df_location = wf_location hourlyData, df_forecast = days, df_timestamp = now\<rparr>,
              error = None, timestamp = now\<rparr>"
    using assms ok by (simp add: getDailyForecast_def respond_def)
  with rest show ?thesis by blast
qed

lemma getHistoricalDailyWeather_ok:
  assumes "success r" and "data r = Some historicalData"
  shows "\<exists>days. getHistoricalDailyWeather now r =
             \<lparr>success = True,
              data = Some \<lparr>hd_location = hw_location historicalData, hd_data = days,
                           hd_period = hw_period historicalData, hd_timestamp = now\<rparr>,
              error = None, timestamp = now\<rparr>
           \<and> distinct (map day_date days)
           \<and> set (map day_date days) = date ` set (hw_data historicalData)
           \<and> (\<forall>e \<in> set days.
                 aggregateDay withoutIcon
                   (day_date e, filter (\<lambda>x. date x = day_date e) (hw_data historicalData)) = Inr e)
           \<and> (\<Sum>e\<leftarrow>days. length (filter (\<lambda>x. date x = day_date e) (hw_data historicalData)))
                = length (hw_data historicalData)
           \<and> (hw_data historicalData = [] \<longrightarrow> days = [])
           \<and> sorted_wrt (<) (map day_date days)"
proof -
  from aggregate_all [of withoutIcon "hw_data historicalData"] obtain days where
    ok: "mapE (aggregateDay withoutIcon) (buildDailyMap (hw_data historicalData)) = Inr days"
    and d: "distinct (map day_date days)"
    and s: "set (map day_date days) = date ` set (hw_data historicalData)"
    and a: "\<forall>e \<in> set days.
          aggregateDay withoutIcon
            (day_date e, filter (\<lambda>x. date x = day_date e) (hw_data historicalData)) = Inr e"
    and n: "(\<Sum>e\<leftarrow>days. length (filter (\<lambda>x. date x = day_date e) (hw_data historicalData)))
          = length (hw_data historicalData)"
    and e: "hw_data historicalData = [] \<longrightarrow> days = []"
    by blast
  let ?sorted = "sort_key day_date days"
  have r: "getHistoricalDailyWeather now r =
             \<lparr>success = True,
              data = Some \<lparr>hd_location = hw_location historicalData, hd_data = ?sorted,
                           hd_period = hw_period historicalData, hd_timestamp = now\<rparr>,
              error = None, timestamp = now\<rparr>"
    using assms ok by (simp add: getHistoricalDailyWeather_def respond_def)
  from d have d': "distinct (map day_date ?sorted)"
    by (simp add: distinct_map)
  from s have s': "set (map day_date ?sorted) = date ` set (hw_data historicalData)" by simp
  from a have a': "\<forall>e \<in> set ?sorted.
          aggregateDay withoutIcon
            (day_date e, filter (\<lambda>x. date x = day_date e) (hw_data historicalData)) = Inr e"
    by simp
  from n have n': "(\<Sum>e\<leftarrow>?sorted. length (filter (\<lambda>x. date x = day_date e) (hw_data historicalData)))
          = length (hw_data historicalData)"
    by (simp add: sum_list_sort_key)
  from e have e': "hw_data historicalData = [] \<longrightarrow> ?sorted = []" by auto
  have "sorted (map day_date ?sorted)" by (rule sorted_sort_key)
  with d' have o: "sorted_wrt (<) (map day_date ?sorted)" by (simp add: strict_sorted_iff)
  from r d' s' a' n' e' o show ?thesis by blast
qed

lemma getDailyForecast_data:
  "data (getDailyForecast now r) = Some out \<Longrightarrow> success r \<and> (\<exists>hourlyData. data r = Some hourlyData)"
  by (cases "success r"; cases "data r") (simp_all add: getDailyForecast_def respond_def)

lemma getHistoricalDailyWeather_data:
  "data (getHistoricalDailyWeather now r) = Some out \<Longrightarrow> success r \<and> (\<exists>historicalData. data r = Some historicalData)"
  by (cases "success r"; cases "data r") (simp_all add: getHistoricalDailyWeather_def respond_def)

section \<open>Daily aggregation is a grouping\<close>

text \<open>
  C1. For every sequence of samples that \<open>getDailyForecast\<close> or \<open>getHistoricalDailyWeather\<close>
  is given in a successful envelope, the result is a success envelope with a list of daily
  entries in which each date of the input stands exactly once and no other date does; each
  entry is the aggregate of the samples of its date, in their order, and the sizes of these
  groups sum to the length of the input. An empty input gives a success envelope with no
  entries, not an error. When the dates of the input samples ascend (samples in
  chronological order), the dates of the entries of \<open>getDailyForecast\<close> strictly ascend;
  those of \<open>getHistoricalDailyWeather\<close>, which sorts, always do.
\<close>

theorem daily_aggregation_groups_by_date:
  "(success r \<and> data r = Some hourlyData \<longrightarrow>
      (\<exists>days. getDailyForecast now r =
             \<lparr>success = True,
              data = Some \<lparr>df_location = wf_location hourlyData, df_forecast = days, df_timestamp = now\<rparr>,
              error = None, timestamp = now\<rparr>
           \<and> distinct (map day_date days)
           \<and> set (map day_date days) = date ` set (wf_forecast hourlyData)
           \<and> (\<forall>e \<in> set days.
                 aggregateDay withIcon
                   (day_date e, filter (\<lambda>x. date x = day_date e) (wf_forecast hourlyData)) = Inr e)
           \<and> (\<Sum>e\<leftarrow>days. length (filter (\<lambda>x. date x = day_date e) (wf_forecast hourlyData)))
                = length (wf_forecast hourlyData)
           \<and> (wf_forecast hourlyData = [] \<longrightarrow> days = [])
           \<and> (sorted (map date (wf_forecast hourlyData)) \<longrightarrow> sorted_wrt (<) (map day_date days))))
   \<and> (success r' \<and> data r' = Some historicalData \<longrightarrow>
      (\<exists>days. getHistoricalDailyWeather now r' =
             \<lparr>success = True,
              data = Some \<lparr>hd_location = hw_location historicalData, hd_data = days,
                           hd_period = hw_period historicalData, hd_timestamp = now\<rparr>,
              error = None, timestamp = now\<rparr>
           \<and> distinct (map day_date days)
           \<and> set (map day_date days) = date ` set (hw_data historicalData)
           \<and> (\<forall>e \<in> set days.
                 aggregateDay withoutIcon
                   (day_date e, filter (\<lambda>x. date x = day_date e) (hw_data historicalData)) = Inr e)
           \<and> (\<Sum>e\<leftarrow>days. length (filter (\<lambda>x. date x = day_date e) (hw_data historicalData)))
                = length (hw_data historicalData)
           \<and> (hw_data historicalData = [] \<longrightarrow> days = [])
           \<and> sorted_wrt (<) (map day_date days)))"
  using getDailyForecast_ok [of r hourlyData now] getHistoricalDailyWeather_ok [of r' historicalData now]
  by blast

theorem daily_aggregation_groups_by_date_witness:
  "(\<exists>days. getDailyForecast ''2024-05-01T06:00:00.000Z''
        (fetched (hourly_forecast [sample ''2024-05-01'' 10 5 0, sample ''2024-05-01'' 16 5 1.2,
                                   sample ''2024-05-02'' 12 5 0]))
      = \<lparr>success = True,
         data = Some \<lparr>df_location = pune, df_forecast = days, df_timestamp = ''2024-05-01T06:00:00.000Z''\<rparr>,
         error = None, timestamp = ''2024-05-01T06:00:00.000Z''\<rparr>
      \<and> map day_date days = [''2024-05-01'', ''2024-05-02'']
      \<and> sorted_wrt (<) (map day_date days))
   \<and> (\<exists>days. getHistoricalDailyWeather ''2024-05-01T06:00:00.000Z''
        (fetched (historical_hourly [sample ''2024-05-02'' 10 5 0, sample ''2024-05-01'' 16 5 1.2,
                                     sample ''2024-05-02'' 12 5 0]))
      = \<lparr>success = True,
         data = Some \<lparr>hd_location = pune, hd_data = days,
                      hd_period = \<lparr>period_start = ''2024-05-01'', period_end = ''2024-05-04''\<rparr>,
                      hd_timestamp = ''2024-05-01T06:00:00.000Z''\<rparr>,
         error = None, timestamp = ''2024-05-01T06:00:00.000Z''\<rparr>
      \<and> map day_date days = [''2024-05-01'', ''2024-05-02''])
   \<and> getDailyForecast ''2024-05-01T06:00:00.000Z'' (fetched (hourly_forecast []))
      = \<lparr>success = True,
         data = Some \<lparr>df_location = pune, df_forecast = [], df_timestamp = ''2024-05-01T06:00:00.000Z''\<rparr>,
         error = None, timestamp = ''2024-05-01T06:00:00.000Z''\<rparr>"
proof -
  let ?now = "''2024-05-01T06:00:00.000Z''"
  let ?xs = "[sample ''2024-05-01'' 10 5 0, sample ''2024-05-01'' 16 5 1.2, sample ''2024-05-02'' 12 5 0]"
  let ?ys = "[sample ''2024-05-02'' 10 5 0, sample ''2024-05-01'' 16 5 1.2, sample ''2024-05-02'' 12 5 0]"
  have hx: "success (fetched (hourly_forecast ?xs)) \<and> data (fetched (hourly_forecast ?xs)) = Some (hourly_forecast ?xs)"
    by (simp add: fetched_def)
  have hy: "success (fetched (historical_hourly ?ys)) \<and> data (fetched (historical_hourly ?ys)) = Some (historical_hourly ?ys)"
    by (simp add: fetched_def)
  have he: "success (fetched (hourly_forecast [])) \<and> data (fetched (hourly_forecast [])) = Some (hourly_forecast [])"
    by (simp add: fetched_def)
  have chrono: "sorted (map date (wf_forecast (hourly_forecast ?xs)))"
    by (simp add: hourly_forecast_def sample_def)
  note main = daily_aggregation_groups_by_date
      [of "fetched (hourly_forecast ?xs)" "hourly_forecast ?xs" ?now
          "fetched (historical_hourly ?ys)" "historical_hourly ?ys"]
  from main hx chrono obtain days where
    d1: "getDailyForecast ?now (fetched (hourly_forecast ?xs)) =
           \<lparr>success = True,
            data = Some \<lparr>df_location = wf_location (hourly_forecast ?xs), df_forecast = days, df_timestamp = ?now\<rparr>,
            error = None, timestamp = ?now\<rparr>"
    and d2: "sorted_wrt (<) (map day_date days)"
    by blast
  have "map day_date (df_forecast (the (data (getDailyForecast ?now (fetched (hourly_forecast ?xs))))))
          = [''2024-05-01'', ''2024-05-02'']"
    by (simp add: getDailyForecast_def respond_def fetched_def hourly_forecast_def sample_def
          buildDailyMap_def pushItem_def has_def aggregateDay_def Let_def)
  with d1 have d3: "map day_date days = [''2024-05-01'', ''2024-05-02'']" by simp
  from main hy obtain days' where
    h1: "getHistoricalDailyWeather ?now (fetched (historical_hourly ?ys)) =
           \<lparr>success = True,
            data = Some \<lparr>hd_location = hw_location (historical_hourly ?ys), hd_data = days',
                         hd_period = hw_period (historical_hourly ?ys), hd_timestamp = ?now\<rparr>,
            error = None, timestamp = ?now\<rparr>"
    by blast
  have "map day_date (hd_data (the (data (getHistoricalDailyWeather ?now (fetched (historical_hourly ?ys))))))
          = [''2024-05-01'', ''2024-05-02'']"
    by (simp add: getHistoricalDailyWeather_def respond_def fetched_def historical_hourly_def sample_def
          buildDailyMap_def pushItem_def has_def aggregateDay_def Let_def)
  with h1 have h3: "map day_date days' = [''2024-05-01'', ''2024-05-02'']" by simp
  from daily_aggregation_groups_by_date
      [of "fetched (hourly_forecast [])" "hourly_forecast []" ?now
          "fetched (historical_hourly ?ys)" "historical_hourly ?ys"] he
  obtain none where
    e1: "getDailyForecast ?now (fetched (hourly_forecast [])) =
           \<lparr>success = True,
            data = Some \<lparr>df_location = wf_location (hourly_forecast []), df_forecast = none, df_timestamp = ?now\<rparr>,
            error = None, timestamp = ?now\<rparr>"
    and e2: "wf_forecast (hourly_forecast []) = [] \<longrightarrow> none = []"
    by blast
  from e2 have e3: "none = []" by (simp add: hourly_forecast_def)
  from d1 d2 d3 have A: "\<exists>days. getDailyForecast ?now (fetched (hourly_forecast ?xs))
      = \<lparr>success = True,
         data = Some \<lparr>df_location = pune, df_forecast = days, df_timestamp = ?now\<rparr>,
         error = None, timestamp = ?now\<rparr>
      \<and> map day_date days = [''2024-05-01'', ''2024-05-02'']
      \<and> sorted_wrt (<) (map day_date days)"
    by (simp add: hourly_forecast_def)
  from h1 h3 have B: "\<exists>days. getHistoricalDailyWeather ?now (fetched (historical_hourly ?ys))
      = \<lparr>success = True,
         data = Some \<lparr>hd_location = pune, hd_data = days,
                      hd_period = \<lparr>period_start = ''2024-05-01'', period_end = ''2024-05-04''\<rparr>,
                      hd_timestamp = ?now\<rparr>,
         error = None, timestamp = ?now\<rparr>
      \<and> map day_date days = [''2024-05-01'', ''2024-05-02'']"
    by (simp add: historical_hourly_def)
  from e1 e3 have C: "getDailyForecast ?now (fetched (hourly_forecast []))
      = \<lparr>success = True,
         data = Some \<lparr>df_location = pune, df_forecast = [], df_timestamp = ?now\<rparr>,
         error = None, timestamp = ?now\<rparr>"
    by (simp add: hourly_forecast_def)
  from A B C show ?thesis by (intro conjI)
qed

section \<open>Temperature summary of a day\<close>

text \<open>
  C10 as stated fails. Three samples of one day read 0.1, that is the double of 0.1. The code
  adds them from 0, each partial sum rounded, and divides by 3: the average of the daily
  entry is the next double above that of 0.1, and so above the maximum.
\<close>

theorem daily_average_leaves_min_max:
  "fl (1 / 10) = 3602879701896397 / 36028797018963968
   \<and> map (\<lambda>e. (tmin (day_temperature e), average (day_temperature e), tmax (day_temperature e)))
      (df_forecast (the (data (getDailyForecast ''2024-05-01T06:00:00.000Z''
        (fetched (hourly_forecast
           [sample ''2024-05-01'' (3602879701896397 / 36028797018963968) 5 0,
            sample ''2024-05-01'' (3602879701896397 / 36028797018963968) 5 0,
            sample ''2024-05-01'' (3602879701896397 / 36028797018963968) 5 0]))))))
     = [(3602879701896397 / 36028797018963968,
         7205759403792795 / 72057594037927936,
         3602879701896397 / 36028797018963968)]
   \<and> (3602879701896397 / 36028797018963968 :: real) < 7205759403792795 / 72057594037927936"
proof -
  have ev: "map (\<lambda>e. (tmin (day_temperature e), average (day_temperature e), tmax (day_temperature e)))
      (df_forecast (the (data (getDailyForecast ''2024-05-01T06:00:00.000Z''
        (fetched (hourly_forecast
           [sample ''2024-05-01'' (3602879701896397 / 36028797018963968) 5 0,
            sample ''2024-05-01'' (3602879701896397 / 36028797018963968) 5 0,
            sample ''2024-05-01'' (3602879701896397 / 36028797018963968) 5 0]))))))
     = [(3602879701896397 / 36028797018963968,
         7205759403792795 / 72057594037927936,
         3602879701896397 / 36028797018963968)]"
    by (simp add: getDailyForecast_def respond_def fetched_def hourly_forecast_def sample_def
          buildDailyMap_def pushItem_def has_def aggregateDay_def Let_def
          fadd_zero_tenth fadd_tenth_tenth fadd_two_tenths_tenth fdiv_three_tenths_three)
  have lt: "(3602879701896397 / 36028797018963968 :: real) < 7205759403792795 / 72057594037927936"
    by simp
  from fl_tenth ev lt show ?thesis by (intro conjI)
qed

text \<open>
  C10, amended. For every day group of samples that is not empty, the daily entry made of
  it has as minimum and maximum the least and the greatest temperature of the group, so
  \<open>min \<le> max\<close>; its average is the mean as the code computes it, the temperatures added from
  0 in their order and the sum divided by the count, each result rounded to a double. The
  exact mean of the group lies between the minimum and the maximum; the computed average
  can leave that interval by rounding. For a group of one sample, whose temperature is a
  double, all three are that temperature. Every entry that \<open>getDailyForecast\<close> or
  \<open>getHistoricalDailyWeather\<close> returns has \<open>min \<le> max\<close>.
\<close>

theorem daily_temperature_summary:
  "(items \<noteq> [] \<longrightarrow>
      (\<exists>e. aggregateDay pick (k, items) = Inr e
          \<and> tmin (day_temperature e) \<in> temperature ` set items
          \<and> tmax (day_temperature e) \<in> temperature ` set items
          \<and> (\<forall>x \<in> set items. tmin (day_temperature e) \<le> temperature x
                              \<and> temperature x \<le> tmax (day_temperature e))
          \<and> tmin (day_temperature e) \<le> tmax (day_temperature e)
          \<and> average (day_temperature e)
              = fdiv (foldl fadd 0 (map temperature items)) (real (length items))
          \<and> tmin (day_temperature e) \<le> sum_list (map temperature items) / real (length items)
          \<and> sum_list (map temperature items) / real (length items) \<le> tmax (day_temperature e)))
   \<and> (is_double (temperature x) \<longrightarrow>
      (\<exists>e. aggregateDay pick (k, [x]) = Inr e
          \<and> tmin (day_temperature e) = temperature x
          \<and> average (day_temperature e) = temperature x
          \<and> tmax (day_temperature e) = temperature x))
   \<and> (data (getDailyForecast now r) = Some out \<longrightarrow>
        (\<forall>e \<in> set (df_forecast out). tmin (day_temperature e) \<le> tmax (day_temperature e)))
   \<and> (data (getHistoricalDailyWeather now r') = Some out' \<longrightarrow>
        (\<forall>e \<in> set (hd_data out'). tmin (day_temperature e) \<le> tmax (day_temperature e)))"
proof -
  have one: "items \<noteq> [] \<longrightarrow>
      (\<exists>e. aggregateDay pick (k, items) = Inr e
          \<and> tmin (day_temperature e) \<in> temperature ` set items
          \<and> tmax (day_temperature e) \<in> temperature ` set items
          \<and> (\<forall>x \<in> set items. tmin (day_temperature e) \<le> temperature x
                              \<and> temperature x \<le> tmax (day_temperature e))
          \<and> tmin (day_temperature e) \<le> tmax (day_temperature e)
          \<and> average (day_temperature e)
              = fdiv (foldl fadd 0 (map temperature items)) (real (length items))
          \<and> tmin (day_temperature e) \<le> sum_list (map temperature items) / real (length items)
          \<and> sum_list (map temperature items) / real (length items) \<le> tmax (day_temperature e))"
    using aggregateDay_summary [of items pick k] by blast
  have single: "is_double (temperature x) \<longrightarrow>
      (\<exists>e. aggregateDay pick (k, [x]) = Inr e
          \<and> tmin (day_temperature e) = temperature x
          \<and> average (day_temperature e) = temperature x
          \<and> tmax (day_temperature e) = temperature x)"
    using aggregateDay_single [of x pick k] by blast
  have fc: "data (getDailyForecast now r) = Some out \<longrightarrow>
        (\<forall>e \<in> set (df_forecast out). tmin (day_temperature e) \<le> tmax (day_temperature e))"
  proof
    assume out: "data (getDailyForecast now r) = Some out"
    from getDailyForecast_data [OF out] obtain hourlyData where
      r: "success r" "data r = Some hourlyData" by blast
    from getDailyForecast_ok [OF r, of now] obtain days where
      res: "getDailyForecast now r =
             \<lparr>success = True,
              data = Some \<lparr>df_location = wf_location hourlyData, df_forecast = days, df_timestamp = now\<rparr>,
              error = None, timestamp = now\<rparr>"
      and each: "\<forall>e \<in> set days.
                 aggregateDay withIcon
                   (day_date e, filter (\<lambda>x. date x = day_date e) (wf_forecast hourlyData)) = Inr e"
      by blast
    from res out have "df_forecast out = days" by auto
    with each show "\<forall>e \<in> set (df_forecast out). tmin (day_temperature e) \<le> tmax (day_temperature e)"
      by (blast dest: aggregateDay_Inr_order)
  qed
  have hist: "data (getHistoricalDailyWeather now r') = Some out' \<longrightarrow>
        (\<forall>e \<in> set (hd_data out'). tmin (day_temperature e) \<le> tmax (day_temperature e))"
  proof
    assume out: "data (getHistoricalDailyWeather now r') = Some out'"
    from getHistoricalDailyWeather_data [OF out] obtain historicalData where
      r: "success r'" "data r' = Some historicalData" by blast
    from getHistoricalDailyWeather_ok [OF r, of now] obtain days where
      res: "getHistoricalDailyWeather now r' =
             \<lparr>success = True,
              data = Some \<lparr>hd_location = hw_location historicalData, hd_data = days,
                           hd_period = hw_period historicalData, hd_timestamp = now\<rparr>,
              error = None, timestamp = now\<rparr>"
      and each: "\<forall>e \<in> set days.
                 aggregateDay withoutIcon
                   (day_date e, filter (\<lambda>x. date x = day_date e) (hw_data historicalData)) = Inr e"
      by blast
    from res out have "hd_data out' = days" by auto
    with each show "\<forall>e \<in> set (hd_data out'). tmin (day_temperature e) \<le> tmax (day_temperature e)"
      by (blast dest: aggregateDay_Inr_order)
  qed
  from one single fc hist show ?thesis by (intro conjI)
qed

theorem daily_temperature_summary_witness:
  "map (\<lambda>e. (tmin (day_temperature e), average (day_temperature e), tmax (day_temperature e)))
      (df_forecast (the (data (getDailyForecast ''2024-05-01T06:00:00.000Z''
        (fetched (hourly_forecast [sample ''2024-05-01'' 10 5 0, sample ''2024-05-01'' 16 5 1,
                                   sample ''2024-05-02'' 12 5 0]))))))
     = [(10, 13, 16), (12, 12, 12)]
   \<and> list_all (\<lambda>e. tmin (day_temperature e) \<le> tmax (day_temperature e))
      (df_forecast (the (data (getDailyForecast ''2024-05-01T06:00:00.000Z''
        (fetched (hourly_forecast [sample ''2024-05-01'' 10 5 0, sample ''2024-05-01'' 16 5 1,
                                   sample ''2024-05-02'' 12 5 0]))))))
   \<and> list_all (\<lambda>e. tmin (day_temperature e) \<le> tmax (day_temperature e))
      (hd_data (the (data (getHistoricalDailyWeather ''2024-05-01T06:00:00.000Z''
        (fetched (historical_hourly [sample ''2024-05-02'' 10 5 0, sample ''2024-05-01'' 16 5 1,
                                     sample ''2024-05-02'' 12 5 0]))))))
   \<and> (\<exists>e. aggregateDay withIcon (''2024-05-01'', [sample ''2024-05-01'' 10 5 0]) = Inr e
          \<and> tmin (day_temperature e) = 10
          \<and> average (day_temperature e) = 10
          \<and> tmax (day_temperature e) = 10)"
proof -
  let ?now = "''2024-05-01T06:00:00.000Z''"
  let ?xs = "[sample ''2024-05-01'' 10 5 0, sample ''2024-05-01'' 16 5 1, sample ''2024-05-02'' 12 5 0]"
  let ?ys = "[sample ''2024-05-02'' 10 5 0, sample ''2024-05-01'' 16 5 1, sample ''2024-05-02'' 12 5 0]"
  let ?r = "fetched (hourly_forecast ?xs)"
  let ?out = "the (data (getDailyForecast ?now ?r))"
  let ?r' = "fetched (historical_hourly ?ys)"
  let ?out' = "the (data (getHistoricalDailyWeather ?now ?r'))"
  have ev: "map (\<lambda>e. (tmin (day_temperature e), average (day_temperature e), tmax (day_temperature e)))
      (df_forecast ?out) = [(10, 13, 16), (12, 12, 12)]"
    by (simp add: getDailyForecast_def respond_def fetched_def hourly_forecast_def sample_def
          buildDailyMap_def pushItem_def has_def aggregateDay_def Let_def
          fadd_def fdiv_def fl_numeral)
  have some: "data (getDailyForecast ?now ?r) = Some ?out"
    by (simp add: getDailyForecast_def respond_def fetched_def hourly_forecast_def sample_def
          buildDailyMap_def pushItem_def has_def aggregateDay_def Let_def)
  have some': "data (getHistoricalDailyWeather ?now ?r') = Some ?out'"
    by (simp add: getHistoricalDailyWeather_def respond_def fetched_def historical_hourly_def sample_def
          buildDailyMap_def pushItem_def has_def aggregateDay_def Let_def)
  have ne: "?xs \<noteq> []" by simp
  have dbl: "is_double (temperature (sample ''2024-05-01'' 10 5 0))"
    by (simp add: is_double_def sample_def fl_numeral)
  note main = daily_temperature_summary
         [of ?xs withIcon "''2024-05-01''" "sample ''2024-05-01'' 10 5 0" ?now ?r ?out ?r' ?out']
  from main some
  have "\<forall>e \<in> set (df_forecast ?out). tmin (day_temperature e) \<le> tmax (day_temperature e)"
    by blast
  then have A: "list_all (\<lambda>e. tmin (day_temperature e) \<le> tmax (day_temperature e)) (df_forecast ?out)"
    by (simp add: list_all_iff)
  from main some'
  have "\<forall>e \<in> set (hd_data ?out'). tmin (day_temperature e) \<le> tmax (day_temperature e)"
    by blast
  then have B: "list_all (\<lambda>e. tmin (day_temperature e) \<le> tmax (day_temperature e)) (hd_data ?out')"
    by (simp add: list_all_iff)
  from main dbl
  have "\<exists>e. aggregateDay withIcon (''2024-05-01'', [sample ''2024-05-01'' 10 5 0]) = Inr e
          \<and> tmin (day_temperature e) = temperature (sample ''2024-05-01'' 10 5 0)
          \<and> average (day_temperature e) = temperature (sample ''2024-05-01'' 10 5 0)
          \<and> tmax (day_temperature e) = temperature (sample ''2024-05-01'' 10 5 0)"
    by blast
  then have C: "\<exists>e. aggregateDay withIcon (''2024-05-01'', [sample ''2024-05-01'' 10 5 0]) = Inr e
          \<and> tmin (day_temperature e) = 10
          \<and> average (day_temperature e) = 10
          \<and> tmax (day_temperature e) = 10"
    by (simp add: sample_def)
  from ev A B C show ?thesis by (intro conjI)
qed

end
